theory Spec2Isabelle
  imports Complex_Main
begin

section \<open>JavaScript values\<close>

text \<open>
  The runtime is written in JavaScript. Values that reach the planner are the result of
  JSON decoding or of object literals, so a value is \<open>undefined\<close>, \<open>null\<close>, a boolean, a
  number, a string, an array or a plain object. Numbers are IEEE doubles; the model keeps
  the three non-finite values apart and takes a finite number as the rational it denotes
  (comparison, \<open>Math.min\<close> and \<open>Math.max\<close> are exact on doubles). Strings are lists of
  code units below 256, the range every keyword and pattern of the source lives in.
\<close>

datatype jsnum = NaN | NegInf | Fin rat | PosInf

datatype jv =
    JUndef
  | JNull
  | JBool bool
  | JNum jsnum
  | JStr string
  | JArr "jv list"
  | JObj "(string \<times> jv) list"

text \<open>The result of \<open>new URL(s)\<close>: the three members the source reads.\<close>

record url =
  protocol :: string
  hostname :: string
  href :: string

text \<open>
  Built-ins of the language and the browser that the source calls and that are no part
  of the repository: \<open>Number(v)\<close> on strings and objects (StringToNumber),
  \<open>String(v)\<close> on numbers and objects, and the URL parser (\<open>None\<close> when
  \<open>new URL\<close> throws). They are parameters of the model; every theorem holds for all of
  them unless it says otherwise. \<open>js_Number\<close> and \<open>js_String\<close> below are the values
  of the conversions when they return; a conversion of an object can also throw, and the
  section on the sanitizer as a call has the conversions with both outcomes.
\<close>

record platform =
  pf_number :: "jv \<Rightarrow> jsnum"
  pf_string :: "jv \<Rightarrow> string"
  pf_url :: "string \<Rightarrow> url option"

fun num_truthy :: "jsnum \<Rightarrow> bool" where
  "num_truthy NaN = False"
| "num_truthy (Fin q) = (q \<noteq> 0)"
| "num_truthy NegInf = True"
| "num_truthy PosInf = True"

fun truthy :: "jv \<Rightarrow> bool" where
  "truthy JUndef = False"
| "truthy JNull = False"
| "truthy (JBool b) = b"
| "truthy (JNum n) = num_truthy n"
| "truthy (JStr s) = (s \<noteq> [])"
| "truthy (JArr xs) = True"
| "truthy (JObj kvs) = True"

text \<open>\<open>typeof v === 'object'\<close> holds of \<open>null\<close>, arrays and objects.\<close>

fun typeof_object :: "jv \<Rightarrow> bool" where
  "typeof_object JNull = True"
| "typeof_object (JArr xs) = True"
| "typeof_object (JObj kvs) = True"
| "typeof_object v = False"

text \<open>
  Property read \<open>v.k\<close>. An array answers \<open>length\<close>; no other name the source reads
  is an own or inherited member of an array. A missing member is \<open>undefined\<close>.
\<close>

fun jget :: "jv \<Rightarrow> string \<Rightarrow> jv" where
  "jget (JObj kvs) k = (case map_of kvs k of Some v \<Rightarrow> v | None \<Rightarrow> JUndef)"
| "jget (JArr xs) k = (if k = ''length'' then JNum (Fin (of_nat (length xs))) else JUndef)"
| "jget v k = JUndef"

fun js_Number :: "platform \<Rightarrow> jv \<Rightarrow> jsnum" where
  "js_Number P JUndef = NaN"
| "js_Number P JNull = Fin 0"
| "js_Number P (JBool b) = Fin (if b then 1 else 0)"
| "js_Number P (JNum n) = n"
| "js_Number P v = pf_number P v"

fun js_String :: "platform \<Rightarrow> jv \<Rightarrow> string" where
  "js_String P (JStr s) = s"
| "js_String P JUndef = ''undefined''"
| "js_String P JNull = ''null''"
| "js_String P (JBool b) = (if b then ''true'' else ''false'')"
| "js_String P v = pf_string P v"

fun isFinite :: "jsnum \<Rightarrow> bool" where
  "isFinite (Fin q) = True"
| "isFinite n = False"

fun num_pos :: "jsnum \<Rightarrow> bool" where
  "num_pos (Fin q) = (0 < q)"
| "num_pos PosInf = True"
| "num_pos n = False"

fun js_max :: "jsnum \<Rightarrow> jsnum \<Rightarrow> jsnum" where
  "js_max NaN b = NaN"
| "js_max a NaN = NaN"
| "js_max PosInf b = PosInf"
| "js_max a PosInf = PosInf"
| "js_max NegInf b = b"
| "js_max a NegInf = a"
| "js_max (Fin a) (Fin b) = Fin (max a b)"

fun js_min :: "jsnum \<Rightarrow> jsnum \<Rightarrow> jsnum" where
  "js_min NaN b = NaN"
| "js_min a NaN = NaN"
| "js_min NegInf b = NegInf"
| "js_min a NegInf = NegInf"
| "js_min PosInf b = b"
| "js_min a PosInf = a"
| "js_min (Fin a) (Fin b) = Fin (min a b)"

text \<open>\<open>clamp(value, min, max) = Math.min(max, Math.max(min, value))\<close>\<close>

definition clamp :: "jsnum \<Rightarrow> jsnum \<Rightarrow> jsnum \<Rightarrow> jsnum" where
  "clamp v lo hi = js_min hi (js_max lo v)"

text \<open>\<open>n || d\<close> on numbers.\<close>

definition num_or :: "jsnum \<Rightarrow> jsnum \<Rightarrow> jsnum" where
  "num_or n d = (if num_truthy n then n else d)"

section \<open>Strings\<close>

definition is_ws :: "char \<Rightarrow> bool" where
  "is_ws c = (c \<in> set [CHR '' '', CHR 0x09, CHR 0x0A, CHR 0x0B, CHR 0x0C, CHR 0x0D, CHR 0xA0])"

definition trim :: "string \<Rightarrow> string" where
  "trim s = rev (dropWhile is_ws (rev (dropWhile is_ws s)))"

text \<open>
  Case mapping of the code units below 256: the letters of ASCII and those of Latin-1,
  U+00C0 to U+00DE without the multiplication sign, whose lower case lies 32 above.
  \<open>toLowerCase\<close> changes no other code unit of the range. Three code units have an
  upper case outside the range (U+00B5, U+00FF) or longer than one unit (U+00DF); they
  are left as they are, as the matcher of the language leaves them when it ignores case,
  and none of them occurs in a word the source compares with.
\<close>

definition latin1_upper :: string where
  "latin1_upper = [CHR 0xC0, CHR 0xC1, CHR 0xC2, CHR 0xC3, CHR 0xC4, CHR 0xC5, CHR 0xC6, CHR 0xC7,
                    CHR 0xC8, CHR 0xC9, CHR 0xCA, CHR 0xCB, CHR 0xCC, CHR 0xCD, CHR 0xCE, CHR 0xCF,
                    CHR 0xD0, CHR 0xD1, CHR 0xD2, CHR 0xD3, CHR 0xD4, CHR 0xD5, CHR 0xD6, CHR 0xD8,
                    CHR 0xD9, CHR 0xDA, CHR 0xDB, CHR 0xDC, CHR 0xDD, CHR 0xDE]"

definition latin1_lower :: string where
  "latin1_lower = [CHR 0xE0, CHR 0xE1, CHR 0xE2, CHR 0xE3, CHR 0xE4, CHR 0xE5, CHR 0xE6, CHR 0xE7,
                    CHR 0xE8, CHR 0xE9, CHR 0xEA, CHR 0xEB, CHR 0xEC, CHR 0xED, CHR 0xEE, CHR 0xEF,
                    CHR 0xF0, CHR 0xF1, CHR 0xF2, CHR 0xF3, CHR 0xF4, CHR 0xF5, CHR 0xF6, CHR 0xF8,
                    CHR 0xF9, CHR 0xFA, CHR 0xFB, CHR 0xFC, CHR 0xFD, CHR 0xFE]"

definition lower_tab :: "(char \<times> char) list" where
  "lower_tab = zip (''ABCDEFGHIJKLMNOPQRSTUVWXYZ'' @ latin1_upper)
                   (''abcdefghijklmnopqrstuvwxyz'' @ latin1_lower)"

definition lower_char :: "char \<Rightarrow> char" where
  "lower_char c = (case map_of lower_tab c of Some d \<Rightarrow> d | None \<Rightarrow> c)"

definition upper_char :: "char \<Rightarrow> char" where
  "upper_char c = (case map_of (map (\<lambda>(a, b). (b, a)) lower_tab) c of Some d \<Rightarrow> d | None \<Rightarrow> c)"

definition toLowerCase :: "string \<Rightarrow> string" where
  "toLowerCase s = map lower_char s"

definition toUpperCase :: "string \<Rightarrow> string" where
  "toUpperCase s = map upper_char s"

text \<open>\<open>haystack.includes(needle)\<close>\<close>

fun str_includes :: "string \<Rightarrow> string \<Rightarrow> bool" where
  "str_includes [] needle = (needle = [])"
| "str_includes (x # xs) needle = (take (length needle) (x # xs) = needle \<or> str_includes xs needle)"

section \<open>Regular expressions\<close>

text \<open>
  The patterns of the source are kept as terms and run by one backtracking matcher with
  the priorities of the language: alternatives left to right, quantifiers greedy, an
  iteration of \<open>*\<close> that consumes nothing is rejected. A matcher state is the code unit
  before the position, the rest of the input and the captured groups; running a pattern
  gives every way it can match from a state, best first.
\<close>

datatype cclass = CChr char | CRng char char | CSpace | CWord

datatype rx =
    Lit string
  | Cls "cclass list"
  | NCls "cclass list"
  | Seq rx rx
  | Alt rx rx
  | Star rx
  | Opt rx
  | Bnd
  | Bol
  | Eol
  | Grp nat rx

type_synonym m_state = "char option \<times> string \<times> (nat \<times> string) list"

definition Plus :: "rx \<Rightarrow> rx" where
  "Plus r = Seq r (Star r)"

fun Seqs :: "rx list \<Rightarrow> rx" where
  "Seqs [] = Lit []"
| "Seqs [r] = r"
| "Seqs (r # rs) = Seq r (Seqs rs)"

fun Alts :: "rx list \<Rightarrow> rx" where
  "Alts [] = NCls [CRng (CHR 0x00) (CHR 0xFF)]"
| "Alts [r] = r"
| "Alts (r # rs) = Alt r (Alts rs)"

definition char_le :: "char \<Rightarrow> char \<Rightarrow> bool" where
  "char_le a b = ((of_char a :: nat) \<le> of_char b)"

definition is_word :: "char \<Rightarrow> bool" where
  "is_word c = (c \<in> set ''abcdefghijklmnopqrstuvwxyzABCDEFGHIJKLMNOPQRSTUVWXYZ0123456789_'')"

definition ceq :: "bool \<Rightarrow> char \<Rightarrow> char \<Rightarrow> bool" where
  "ceq ic a b = (if ic then lower_char a = lower_char b else a = b)"

fun in_class :: "bool \<Rightarrow> cclass \<Rightarrow> char \<Rightarrow> bool" where
  "in_class ic (CChr c) x = ceq ic c x"
| "in_class ic (CRng a b) x =
     ((char_le a x \<and> char_le x b)
      \<or> (ic \<and> ((char_le a (lower_char x) \<and> char_le (lower_char x) b)
              \<or> (char_le a (upper_char x) \<and> char_le (upper_char x) b))))"
| "in_class ic CSpace x = is_ws x"
| "in_class ic CWord x = is_word x"

fun lit_run :: "bool \<Rightarrow> string \<Rightarrow> char option \<Rightarrow> string \<Rightarrow> (char option \<times> string) option" where
  "lit_run ic [] p s = Some (p, s)"
| "lit_run ic (c # cs) p [] = None"
| "lit_run ic (c # cs) p (x # xs) = (if ceq ic c x then lit_run ic cs (Some x) xs else None)"

fun word_before :: "char option \<Rightarrow> bool" where
  "word_before None = False"
| "word_before (Some c) = is_word c"

fun word_after :: "string \<Rightarrow> bool" where
  "word_after [] = False"
| "word_after (x # xs) = is_word x"

fun rx_star :: "(m_state \<Rightarrow> m_state list) \<Rightarrow> nat \<Rightarrow> m_state \<Rightarrow> m_state list" where
  "rx_star f 0 st = [st]"
| "rx_star f (Suc n) st =
     concat (map (\<lambda>st'. if length (fst (snd st')) < length (fst (snd st))
                         then rx_star f n st' else []) (f st)) @ [st]"

primrec rx_run :: "bool \<Rightarrow> rx \<Rightarrow> m_state \<Rightarrow> m_state list" where
  "rx_run ic (Lit l) = (\<lambda>(p, s, c). case lit_run ic l p s of
       Some (p', s') \<Rightarrow> [(p', s', c)] | None \<Rightarrow> [])"
| "rx_run ic (Cls cs) = (\<lambda>(p, s, c). case s of
       [] \<Rightarrow> [] | x # xs \<Rightarrow> if list_ex (\<lambda>k. in_class ic k x) cs then [(Some x, xs, c)] else [])"
| "rx_run ic (NCls cs) = (\<lambda>(p, s, c). case s of
       [] \<Rightarrow> [] | x # xs \<Rightarrow> if list_ex (\<lambda>k. in_class ic k x) cs then [] else [(Some x, xs, c)])"
| "rx_run ic (Seq a b) = (\<lambda>st. concat (map (rx_run ic b) (rx_run ic a st)))"
| "rx_run ic (Alt a b) = (\<lambda>st. rx_run ic a st @ rx_run ic b st)"
| "rx_run ic (Star r) = (\<lambda>st. rx_star (rx_run ic r) (length (fst (snd st))) st)"
| "rx_run ic (Opt r) = (\<lambda>st. rx_run ic r st @ [st])"
| "rx_run ic Bnd = (\<lambda>(p, s, c). if word_before p \<noteq> word_after s then [(p, s, c)] else [])"
| "rx_run ic Bol = (\<lambda>(p, s, c). if p = None then [(p, s, c)] else [])"
| "rx_run ic Eol = (\<lambda>(p, s, c). if s = [] then [(p, s, c)] else [])"
| "rx_run ic (Grp n r) = (\<lambda>(p, s, c).
       map (\<lambda>(p', s', c'). (p', s', (n, take (length s - length s') s) # c')) (rx_run ic r (p, s, c)))"

text \<open>
  \<open>s.match(r)\<close> without the global flag: the leftmost start that matches; the result is
  the start index, the matched text and the groups.
\<close>

fun rx_find :: "bool \<Rightarrow> rx \<Rightarrow> nat \<Rightarrow> char option \<Rightarrow> string
    \<Rightarrow> (nat \<times> string \<times> (nat \<times> string) list) option" where
  "rx_find ic r i p [] =
     (case rx_run ic r (p, [], []) of
        [] \<Rightarrow> None
      | st # _ \<Rightarrow> Some (i, [], snd (snd st)))"
| "rx_find ic r i p (x # xs) =
     (case rx_run ic r (p, x # xs, []) of
        [] \<Rightarrow> rx_find ic r (Suc i) (Some x) xs
      | st # _ \<Rightarrow> Some (i, take (length (x # xs) - length (fst (snd st))) (x # xs), snd (snd st)))"

definition rx_match :: "bool \<Rightarrow> rx \<Rightarrow> string \<Rightarrow> (nat \<times> string \<times> (nat \<times> string) list) option" where
  "rx_match ic r s = rx_find ic r 0 None s"

definition rx_test :: "bool \<Rightarrow> rx \<Rightarrow> string \<Rightarrow> bool" where
  "rx_test ic r s = (rx_match ic r s \<noteq> None)"

text \<open>\<open>match[n]\<close>: the text of group \<open>n\<close>, \<open>undefined\<close> when the group took no part.\<close>

definition group :: "(nat \<times> string \<times> (nat \<times> string) list) \<Rightarrow> nat \<Rightarrow> string option" where
  "group m n = map_of (snd (snd m)) n"

section \<open>The plan sanitizer (agent.js)\<close>

definition MAX_PLAN_STEPS :: nat where "MAX_PLAN_STEPS = 20"
definition MAX_SELECTOR_LENGTH :: nat where "MAX_SELECTOR_LENGTH = 320"
definition MAX_FIELD_TEXT_LENGTH :: nat where "MAX_FIELD_TEXT_LENGTH = 1200"
definition MAX_REPLY_LENGTH :: nat where "MAX_REPLY_LENGTH = 2500"

definition LOW_RISK_ACTIONS :: "string list" where
  "LOW_RISK_ACTIONS = [''ANALYZE_PAGE'', ''SCRAPE_PAGE'', ''VISUALIZE_PAGE'', ''GOOGLE_SEARCH'',
     ''SEARCH_YOUTUBE'', ''PLAY_MEDIA'', ''WAIT'']"

definition TAB_ACTIONS :: "string list" where
  "TAB_ACTIONS = [''NAVIGATE'', ''SEARCH_YOUTUBE'', ''GOOGLE_SEARCH'', ''PLAY_MEDIA'', ''CLICK'',
     ''TYPE'', ''FILL_FORM'', ''ANALYZE_PAGE'', ''SCRAPE_PAGE'', ''VISUALIZE_PAGE'', ''OPEN_TAB'',
     ''SWITCH_TAB'', ''WAIT'']"

definition ALLOWED_ACTIONS :: "string list" where
  "ALLOWED_ACTIONS = TAB_ACTIONS @ [''REPLY'']"

text \<open>\<open>sanitizeSelector\<close>, \<open>sanitizeText\<close>: the empty string stands for "no value".\<close>

definition sanitizeSelector :: "jv \<Rightarrow> string" where
  "sanitizeSelector selector =
     (case selector of
        JStr s \<Rightarrow>
          (let trimmed = trim s
           in if trimmed = [] \<or> MAX_SELECTOR_LENGTH < length trimmed then [] else trimmed)
      | _ \<Rightarrow> [])"

definition sanitizeText :: "jv \<Rightarrow> nat \<Rightarrow> string" where
  "sanitizeText text maxLength =
     (case text of
        JStr s \<Rightarrow> (let trimmed = trim s in if trimmed = [] then [] else take maxLength trimmed)
      | _ \<Rightarrow> [])"

text \<open>The pattern \<^verbatim>\<open>/^https?:\/\//i\<close>.\<close>

definition rx_http_prefix :: rx where
  "rx_http_prefix = Seqs [Bol, Lit ''http'', Opt (Lit ''s''), Lit ''://'']"

definition sanitizeUrl :: "platform \<Rightarrow> jv \<Rightarrow> string" where
  "sanitizeUrl P input =
     (case input of
        JStr s \<Rightarrow>
          (let trimmed = trim s
           in if trimmed = [] then []
              else (let candidate = (if rx_test True rx_http_prefix trimmed then trimmed
                                     else ''https://'' @ trimmed)
                    in case pf_url P candidate of
                         None \<Rightarrow> []
                       | Some parsed \<Rightarrow>
                           if protocol parsed \<noteq> ''http:'' \<and> protocol parsed \<noteq> ''https:'' then []
                           else href parsed))
      | _ \<Rightarrow> [])"

definition mode_only :: "string \<Rightarrow> jv" where
  "mode_only m = JObj [(''mode'', JStr m)]"

definition mode_value :: "string \<Rightarrow> jv \<Rightarrow> jv" where
  "mode_value m v = JObj [(''mode'', JStr m), (''value'', v)]"

text \<open>\<open>a ?? b\<close>\<close>

definition nullish_or :: "jv \<Rightarrow> jv \<Rightarrow> jv" where
  "nullish_or a b = (if a = JUndef \<or> a = JNull then b else a)"

definition normalizeTarget :: "platform \<Rightarrow> jv \<Rightarrow> jv \<Rightarrow> jv" where
  "normalizeTarget P target fallback =
     (let fallbackTarget = (if typeof_object fallback \<and> truthy fallback then fallback
                            else mode_only ''active'')
      in if \<not> truthy target then fallbackTarget
         else case target of
           JStr s \<Rightarrow>
             (let normalized = trim (toLowerCase s)
              in if normalized = ''all'' then mode_only ''all''
                 else if normalized = ''active'' \<or> normalized = ''current'' then mode_only ''active''
                 else if str_includes normalized ''.'' \<and> \<not> str_includes normalized '' ''
                   then mode_value ''domain'' (JStr normalized)
                 else fallbackTarget)
         | _ \<Rightarrow>
             if \<not> typeof_object target then fallbackTarget
             else (let m = jget target ''mode'';
                       mode = toLowerCase (js_String P (if truthy m then m else JStr []));
                       tabId = js_Number P (nullish_or (jget target ''value'') (jget target ''tabId''));
                       v = toLowerCase (sanitizeText (jget target ''value'') 120)
                   in if mode = ''all'' \<or> mode = ''active'' then mode_only mode
                      else if mode = ''tab_id'' \<and> isFinite tabId \<and> num_pos tabId
                        then mode_value ''tab_id'' (JNum tabId)
                      else if (mode = ''url_contains'' \<or> mode = ''domain'') \<and> v \<noteq> []
                        then mode_value mode (JStr v)
                      else fallbackTarget))"

text \<open>A member that is set only when its value is not the empty string.\<close>

definition opt_member :: "string \<Rightarrow> string \<Rightarrow> (string \<times> jv) list" where
  "opt_member k v = (if v = [] then [] else [(k, JStr v)])"

definition sanitizeFormField :: "jv \<Rightarrow> jv option" where
  "sanitizeFormField field =
     (if \<not> truthy field \<or> \<not> typeof_object field then None
      else (let v = sanitizeText (jget field ''value'') MAX_FIELD_TEXT_LENGTH
            in if v = [] then None
               else Some (JObj ([(''value'', JStr v)]
                      @ opt_member ''selector'' (sanitizeSelector (jget field ''selector''))
                      @ opt_member ''name'' (sanitizeText (jget field ''name'') 120)
                      @ opt_member ''label'' (sanitizeText (jget field ''label'') 120)
                      @ opt_member ''placeholder'' (sanitizeText (jget field ''placeholder'') 120)
                      @ opt_member ''type'' (sanitizeText (jget field ''type'') 32)))))"

text \<open>
  The \<open>switch\<close> of \<open>sanitizePlan\<close>: the members an action adds to its step, or \<open>None\<close>
  where the source says \<open>continue\<close>.
\<close>

definition sanitizeAction :: "platform \<Rightarrow> string \<Rightarrow> jv \<Rightarrow> (string \<times> jv) list option" where
  "sanitizeAction P action rawStep =
     (if action = ''REPLY'' then
        (let message = sanitizeText (jget rawStep ''message'') MAX_REPLY_LENGTH
         in if message = [] then None else Some [(''message'', JStr message)])
      else if action = ''NAVIGATE'' \<or> action = ''OPEN_TAB'' then
        (let u = sanitizeUrl P (jget rawStep ''url'')
         in if u = [] then None
            else Some ([(''url'', JStr u)]
                   @ (if action = ''OPEN_TAB''
                      then [(''active'', JBool (truthy (jget rawStep ''active'')))] else [])))
      else if action = ''SWITCH_TAB'' then
        (let tabId = js_Number P (jget rawStep ''tabId'')
         in if \<not> isFinite tabId \<or> \<not> num_pos tabId then None
            else Some [(''tabId'', JNum tabId)])
      else if action = ''GOOGLE_SEARCH'' \<or> action = ''SEARCH_YOUTUBE'' then
        (let query = sanitizeText (jget rawStep ''query'') 280
         in if query = [] then None else Some [(''query'', JStr query)])
      else if action = ''PLAY_MEDIA'' \<or> action = ''VISUALIZE_PAGE'' then Some []
      else if action = ''CLICK'' then
        (let selector = sanitizeSelector (jget rawStep ''selector'');
             text = sanitizeText (jget rawStep ''text'') 180
         in if selector = [] \<and> text = [] then None
            else Some (opt_member ''selector'' selector @ opt_member ''text'' text))
      else if action = ''TYPE'' then
        (let selector = sanitizeSelector (jget rawStep ''selector'');
             text = sanitizeText (jget rawStep ''text'') MAX_FIELD_TEXT_LENGTH
         in if selector = [] \<or> text = [] then None
            else Some [(''selector'', JStr selector), (''text'', JStr text),
                       (''clear'', JBool (jget rawStep ''clear'' \<noteq> JBool False))])
      else if action = ''FILL_FORM'' then
        (case jget rawStep ''fields'' of
           JArr fs \<Rightarrow>
             (let fields = take 12 (List.map_filter sanitizeFormField fs)
              in if fields = [] then None
                 else Some ([(''fields'', JArr fields),
                             (''submit'', JBool (truthy (jget rawStep ''submit'')))]
                        @ opt_member ''submitSelector''
                            (sanitizeSelector (jget rawStep ''submitSelector''))))
         | _ \<Rightarrow> None)
      else if action = ''ANALYZE_PAGE'' then
        Some [(''includeText'', JBool (jget rawStep ''includeText'' \<noteq> JBool False)),
              (''maxTextChars'',
               JNum (clamp (num_or (js_Number P (jget rawStep ''maxTextChars'')) (Fin 3000))
                           (Fin 600) (Fin 9000)))]
      else if action = ''SCRAPE_PAGE'' then
        Some [(''maxChars'',
               JNum (clamp (num_or (js_Number P (jget rawStep ''maxChars'')) (Fin 5000))
                           (Fin 800) (Fin 15000)))]
      else if action = ''WAIT'' then
        Some [(''ms'',
               JNum (clamp (num_or (js_Number P (jget rawStep ''ms'')) (Fin 800))
                           (Fin 80) (Fin 20000)))]
      else None)"

text \<open>The body of the loop of \<open>sanitizePlan\<close> for one raw step.\<close>

definition sanitizeStep :: "platform \<Rightarrow> jv \<Rightarrow> jv \<Rightarrow> jv option" where
  "sanitizeStep P defaultTarget rawStep =
     (if \<not> truthy rawStep \<or> \<not> typeof_object rawStep then None
      else (let action = (case jget rawStep ''action'' of
                            JStr a \<Rightarrow> toUpperCase (trim a)
                          | _ \<Rightarrow> [])
            in if action \<notin> set ALLOWED_ACTIONS then None
               else (let step = [(''action'', JStr action)]
                            @ (if action \<in> set TAB_ACTIONS
                               then [(''target'',
                                      normalizeTarget P (jget rawStep ''target'') defaultTarget)]
                               else [])
                     in case sanitizeAction P action rawStep of
                          None \<Rightarrow> None
                        | Some members \<Rightarrow> Some (JObj (step @ members)))))"

text \<open>
  \<open>sanitizePlan\<close>, as the plan it returns. The section on the sanitizer as a call has
  the call with its two outcomes and shows that every call that returns gives this plan.
\<close>

definition sanitizePlan :: "platform \<Rightarrow> jv \<Rightarrow> jv \<Rightarrow> jv list" where
  "sanitizePlan P plan defaultTarget =
     (case plan of
        JArr raw \<Rightarrow>
          (let sanitized = List.map_filter (sanitizeStep P defaultTarget) (take MAX_PLAN_STEPS raw)
           in if sanitized = []
              then [JObj [(''action'', JStr ''REPLY''),
                          (''message'', JStr ''I could not build a safe action plan for this request.'')]]
              else sanitized)
      | _ \<Rightarrow> [JObj [(''action'', JStr ''REPLY''), (''message'', JStr ''Invalid plan format.'')]])"

text \<open>The action of a step, as the orchestrator reads it (\<open>step.action\<close>).\<close>

definition action_of :: "jv \<Rightarrow> string" where
  "action_of step = (case jget step ''action'' of JStr a \<Rightarrow> a | _ \<Rightarrow> [])"

section \<open>Page operations (content.js)\<close>


section \<open>Risk classification (agent.js)\<close>

datatype level = Low | Medium | High

record risk =
  level :: level
  reasons :: "string list"
  timeoutMs :: "nat option"

text \<open>A member inside a template literal, \<^verbatim>\<open>${v || ''}\<close>.\<close>

definition tmpl :: "platform \<Rightarrow> jv \<Rightarrow> string" where
  "tmpl P v = (if truthy v then js_String P v else [])"

text \<open>
  \<open>getHostFromStep\<close>: the lower-cased host of \<open>step.url\<close>, the empty string when the
  step has no URL or the URL does not parse.
\<close>

definition getHostFromStep :: "platform \<Rightarrow> jv \<Rightarrow> string" where
  "getHostFromStep P step =
     (if \<not> truthy step \<or> \<not> truthy (jget step ''url'') then []
      else case pf_url P (js_String P (jget step ''url'')) of
             None \<Rightarrow> []
           | Some parsed \<Rightarrow> toLowerCase (hostname parsed))"

text \<open>\<^verbatim>\<open>/\b(login|log in|sign in|register|sign up|password|otp|verification)\b/i\<close>\<close>

definition rx_auth_intent :: rx where
  "rx_auth_intent = Seqs [Bnd,
     Grp 1 (Alts [Lit ''login'', Lit ''log in'', Lit ''sign in'', Lit ''register'', Lit ''sign up'',
                  Lit ''password'', Lit ''otp'', Lit ''verification'']),
     Bnd]"

definition containsAuthIntent :: "string \<Rightarrow> bool" where
  "containsAuthIntent text = rx_test True rx_auth_intent text"

text \<open>\<^verbatim>\<open>/password|passcode|token|otp|secret|api key|apikey/i\<close>\<close>

definition rx_sensitive :: rx where
  "rx_sensitive = Alts [Lit ''password'', Lit ''passcode'', Lit ''token'', Lit ''otp'', Lit ''secret'',
     Lit ''api key'', Lit ''apikey'']"

definition containsSensitiveField :: "platform \<Rightarrow> jv \<Rightarrow> bool" where
  "containsSensitiveField P step =
     (case jget step ''fields'' of
        JArr fs \<Rightarrow>
          list_ex (\<lambda>field.
            rx_test True rx_sensitive
              (toLowerCase (tmpl P (jget field ''name'') @ '' '' @ tmpl P (jget field ''label'')
                 @ '' '' @ tmpl P (jget field ''type'') @ '' '' @ tmpl P (jget field ''placeholder''))))
            fs
      | _ \<Rightarrow> False)"

text \<open>\<^verbatim>\<open>/submit|sign\s?in|login|register|sign\s?up|checkout|pay|continue/i\<close>\<close>

definition rx_click_risky :: rx where
  "rx_click_risky = Alts [Lit ''submit'',
     Seqs [Lit ''sign'', Opt (Cls [CSpace]), Lit ''in''],
     Lit ''login'', Lit ''register'',
     Seqs [Lit ''sign'', Opt (Cls [CSpace]), Lit ''up''],
     Lit ''checkout'', Lit ''pay'', Lit ''continue'']"

definition classifyStepRisk :: "platform \<Rightarrow> jv \<Rightarrow> string \<Rightarrow> string \<Rightarrow> risk" where
  "classifyStepRisk P step prompt currentHost =
     (let action = action_of step
      in if action \<in> set LOW_RISK_ACTIONS then \<lparr>level = Low, reasons = [], timeoutMs = None\<rparr>
         else if action = ''NAVIGATE'' \<or> action = ''OPEN_TAB'' then
           (let targetHost = getHostFromStep P step;
                rs = (if targetHost \<noteq> [] \<and> currentHost \<noteq> [] \<and> targetHost \<noteq> currentHost
                      then [''navigates across domains ('' @ currentHost @ '' -> '' @ targetHost @ '')'']
                      else [])
            in if rs \<noteq> [] then \<lparr>level = High, reasons = rs, timeoutMs = Some 25000\<rparr>
               else \<lparr>level = Medium, reasons = [''navigation action''], timeoutMs = None\<rparr>)
         else if action = ''FILL_FORM'' then
           (let rs = (if truthy (jget step ''submit'') then [''submits a form''] else [])
                  @ (if containsAuthIntent prompt then [''authentication flow''] else [])
                  @ (if containsSensitiveField P step then [''contains sensitive field values'']
                     else [])
            in \<lparr>level = (if rs \<noteq> [] then High else Medium), reasons = rs, timeoutMs = Some 30000\<rparr>)
         else if action = ''CLICK'' then
           (let clickText = toLowerCase (tmpl P (jget step ''selector'') @ '' ''
                                         @ tmpl P (jget step ''text''))
            in if rx_test True rx_click_risky clickText
               then \<lparr>level = High, reasons = [''click may trigger submit/auth/payment''],
                     timeoutMs = Some 25000\<rparr>
               else \<lparr>level = Medium, reasons = [''direct page interaction''], timeoutMs = None\<rparr>)
         else if action = ''TYPE'' then
           (if containsAuthIntent prompt
            then \<lparr>level = High, reasons = [''typing during authentication flow''],
                  timeoutMs = Some 25000\<rparr>
            else \<lparr>level = Medium, reasons = [''direct page interaction''], timeoutMs = None\<rparr>)
         else \<lparr>level = Medium, reasons = [''interactive action''], timeoutMs = None\<rparr>)"

section \<open>The element resolver (content.js)\<close>

text \<open>
  A page is the list of its elements in document order. An element carries what the
  resolver reads from the DOM: its kind, the reflected members \<open>name\<close>, \<open>id\<close>,
  \<open>type\<close>, \<open>tagName\<close>, the attributes (absent is \<open>None\<close>), the flags, the computed
  style and box, and the text of the labels attached to it. \<open>document.querySelector\<close>
  and \<open>document.getElementById\<close> belong to the browser; a page supplies them, and
  \<open>querySelector\<close> answers \<open>Inl\<close> when it throws on a malformed selector.
\<close>

datatype kind = Input | TextArea | Select | Other

record element =
  el_kind :: kind
  el_name :: string
  el_id :: string
  el_type :: string
  el_tagName :: string
  el_placeholder :: "string option"
  el_aria_label :: "string option"
  el_autocomplete :: "string option"
  el_labelledby :: "string option"
  el_labels :: "string list"
  el_closest_label :: "string option"
  el_disabled :: bool
  el_readOnly :: bool
  el_attached :: bool
  el_visibility :: string
  el_display :: string
  el_width :: rat
  el_height :: rat

record page =
  elements :: "element list"
  querySelector :: "string \<Rightarrow> string + element option"
  text_by_id :: "string \<Rightarrow> string option"












record query =
  q_name :: string
  q_label :: string
  q_placeholder :: string
  q_type :: string

text \<open>\<open>a || b\<close> on strings.\<close>

definition str_or :: "string \<Rightarrow> string \<Rightarrow> string" where
  "str_or a b = (if a \<noteq> [] then a else b)"







section \<open>The background worker (background.js)\<close>

text \<open>
  \<open>RUN_STATES\<close> is a map from run ids to \<^verbatim>\<open>{ canceled, updatedAt }\<close>. A run id is a
  string; the empty string is the falsy id on which \<open>setRunState\<close> and
  \<open>throwIfCanceled\<close> do nothing.
\<close>

record run_state =
  canceled :: bool
  updatedAt :: nat

type_synonym run_states = "string \<Rightarrow> run_state option"

definition CONTENT_ACTIONS :: "string list" where
  "CONTENT_ACTIONS = [''PLAY_MEDIA'', ''CLICK'', ''TYPE'', ''FILL_FORM'', ''ANALYZE_PAGE'',
     ''SCRAPE_PAGE'', ''VISUALIZE_PAGE'']"

text \<open>
  \<open>setRunState(runId, partialState)\<close>; the only member a caller ever passes is
  \<open>canceled\<close>. \<open>now\<close> is \<open>Date.now()\<close>.
\<close>

definition setRunState :: "run_states \<Rightarrow> nat \<Rightarrow> string \<Rightarrow> bool \<Rightarrow> run_states" where
  "setRunState st now runId c =
     (if runId = [] then st
      else st(runId \<mapsto> \<lparr>canceled = c, updatedAt = now\<rparr>))"

definition throwIfCanceled :: "run_states \<Rightarrow> string \<Rightarrow> string option" where
  "throwIfCanceled st runId =
     (if runId = [] then None
      else case st runId of
             None \<Rightarrow> None
           | Some s \<Rightarrow> if canceled s then Some (''Run '' @ runId @ '' was canceled.'') else None)"

text \<open>The flag of a run as \<open>throwIfCanceled\<close> reads it: an unknown run is not canceled.\<close>

definition is_canceled :: "run_states \<Rightarrow> string \<Rightarrow> bool" where
  "is_canceled st runId = (case st runId of None \<Rightarrow> False | Some s \<Rightarrow> canceled s)"

record tab =
  tab_id :: "nat option"
  tab_title :: string
  tab_url :: string
  tab_pendingUrl :: string
  tab_status :: string
  tab_active :: bool

record tab_result =
  r_status :: string
  r_tabId :: "nat option"
  r_title :: string
  r_url :: string
  r_detail :: jv
  r_data :: jv
  r_error :: "string option"

record bg_response =
  b_status :: string
  b_error :: "string option"
  b_detail :: "string option"
  b_durationMs :: "nat option"
  b_results :: "tab_result list"

text \<open>What \<open>runTabAction\<close> returns: \<^verbatim>\<open>{ detail, data }\<close>.\<close>

record action_result =
  ar_detail :: string
  ar_data :: jv

definition cancelAgentRun :: "run_states \<Rightarrow> nat \<Rightarrow> string \<Rightarrow> run_states \<times> bg_response" where
  "cancelAgentRun st now runId =
     (if runId = []
      then (st, \<lparr>b_status = ''error'', b_error = Some ''runId is required for cancellation.'',
                 b_detail = None, b_durationMs = None, b_results = []\<rparr>)
      else (setRunState st now runId True,
            \<lparr>b_status = ''success'', b_error = None,
             b_detail = Some (''Run '' @ runId @ '' marked as canceled.''),
             b_durationMs = None, b_results = []\<rparr>))"

text \<open>
  \<open>isRestrictedUrl\<close>: the seven anchored patterns \<^verbatim>\<open>/^chrome:\/\//i\<close>, \<^verbatim>\<open>/^edge:\/\//i\<close>,
  \<^verbatim>\<open>/^brave:\/\//i\<close>, \<^verbatim>\<open>/^about:/i\<close>, \<^verbatim>\<open>/^chrome-extension:\/\//i\<close>, \<^verbatim>\<open>/^view-source:/i\<close>,
  \<^verbatim>\<open>/^devtools:\/\//i\<close>.
\<close>

definition isRestrictedUrl :: "string \<Rightarrow> bool" where
  "isRestrictedUrl u =
     (rx_test True (Seq Bol (Lit ''chrome://'')) u
      \<or> rx_test True (Seq Bol (Lit ''edge://'')) u
      \<or> rx_test True (Seq Bol (Lit ''brave://'')) u
      \<or> rx_test True (Seq Bol (Lit ''about:'')) u
      \<or> rx_test True (Seq Bol (Lit ''chrome-extension://'')) u
      \<or> rx_test True (Seq Bol (Lit ''view-source:'')) u
      \<or> rx_test True (Seq Bol (Lit ''devtools://'')) u)"

definition isRetryableContentError :: "string \<Rightarrow> bool" where
  "isRetryableContentError message =
     (let normalized = toLowerCase message
      in str_includes normalized ''receiving end does not exist''
         \<or> str_includes normalized ''frame with id 0 is showing error page''
         \<or> str_includes normalized ''cannot access contents of the page''
         \<or> str_includes normalized ''must request permission''
         \<or> str_includes normalized ''timed out waiting for tab''
         \<or> str_includes normalized ''cannot automate browser-internal pages'')"

definition normalizeAction :: "jv \<Rightarrow> string" where
  "normalizeAction action = (case action of JStr a \<Rightarrow> toUpperCase (trim a) | _ \<Rightarrow> [])"

definition normalizeHttpUrl :: "platform \<Rightarrow> jv \<Rightarrow> string + string" where
  "normalizeHttpUrl P rawUrl =
     (case rawUrl of
        JStr s \<Rightarrow>
          (let trimmed = trim s
           in if trimmed = [] then Inl ''URL cannot be empty.''
              else (let candidate = (if rx_test True rx_http_prefix trimmed then trimmed
                                     else ''https://'' @ trimmed)
                    in case pf_url P candidate of
                         None \<Rightarrow> Inl (''Invalid URL: '' @ s)
                       | Some parsed \<Rightarrow>
                           if protocol parsed \<noteq> ''http:'' \<and> protocol parsed \<noteq> ''https:''
                           then Inl ''Only http/https URLs are allowed.''
                           else Inr (href parsed)))
      | _ \<Rightarrow> Inl ''A valid URL is required.'')"

text \<open>The \<open>normalizeTarget\<close> of the background worker (it takes no fallback).\<close>

definition normalizeTarget_bg :: "platform \<Rightarrow> jv \<Rightarrow> jv" where
  "normalizeTarget_bg P target =
     (if \<not> truthy target then mode_only ''active''
      else case target of
        JStr s \<Rightarrow>
          (let v = trim (toLowerCase s)
           in if v = ''all'' then mode_only ''all''
              else if v = ''active'' \<or> v = ''current'' then mode_only ''active''
              else if str_includes v ''.'' \<and> \<not> str_includes v '' '' then mode_value ''domain'' (JStr v)
              else mode_only ''active'')
      | _ \<Rightarrow>
          if \<not> typeof_object target then mode_only ''active''
          else (let m = jget target ''mode'';
                    mode = toLowerCase (js_String P (if truthy m then m else JStr []));
                    n = js_Number P (jget target ''value'')
                in if mode = ''all'' \<or> mode = ''active'' then mode_only mode
                   else if mode = ''tab_id'' \<and> isFinite n \<and> num_pos n then mode_value ''tab_id'' (JNum n)
                   else case jget target ''value'' of
                          JStr s \<Rightarrow>
                            if (mode = ''domain'' \<or> mode = ''url_contains'') \<and> trim s \<noteq> []
                            then mode_value mode (JStr (trim s))
                            else mode_only ''active''
                        | _ \<Rightarrow> mode_only ''active''))"

text \<open>
  The browser, as the worker sees it during one call. Real time and the work of other
  handlers while the call is suspended are not computed: the environment says how many
  polls a wait makes, what each \<open>chrome\<close> call answers (\<open>Inl\<close>, or \<open>Some\<close> message, is
  a rejection with that message) and which \<open>RUN_STATES\<close> each later check of the call
  sees.
\<close>

datatype reply = TimedOut | LastError string | Replied jv

record ready_env =
  rd_first :: "string + tab"
  rd_polls :: "(run_states \<times> (string + tab)) list"

record attempt_env =
  at_seen :: run_states
  at_ready :: ready_env
  at_inject :: "string option"
  at_seen_mid :: run_states
  at_reply :: reply

record tab_env =
  te_seen :: run_states
  te_update :: "string option"
  te_ready :: ready_env
  te_attempt :: "nat \<Rightarrow> attempt_env"

record chrome =
  ch_now :: nat
  ch_elapsed :: nat
  ch_window_tabs :: "tab list"
  ch_tabs_get :: "jsnum \<Rightarrow> string + tab option"
  ch_tabs_create :: "string \<Rightarrow> bool \<Rightarrow> string + tab"
  ch_tabs_activate :: "jsnum \<Rightarrow> string option"
  ch_wait_polls :: "run_states list"
  ch_tab_env :: "tab \<Rightarrow> tab_env"

text \<open>\<open>waitWithCancellation\<close>: one check per poll.\<close>

fun waitWithCancellation :: "run_states list \<Rightarrow> string \<Rightarrow> string option" where
  "waitWithCancellation [] runId = None"
| "waitWithCancellation (st # rest) runId =
     (case throwIfCanceled st runId of
        Some m \<Rightarrow> Some m
      | None \<Rightarrow> waitWithCancellation rest runId)"

fun ready_loop :: "(run_states \<times> (string + tab)) list \<Rightarrow> string \<Rightarrow> tab \<Rightarrow> string + tab" where
  "ready_loop [] runId latestTab = Inr latestTab"
| "ready_loop ((st, got) # rest) runId latestTab =
     (case throwIfCanceled st runId of
        Some m \<Rightarrow> Inl m
      | None \<Rightarrow>
          (case got of
             Inl e \<Rightarrow> Inl e
           | Inr t \<Rightarrow>
               if isRestrictedUrl (str_or (tab_pendingUrl t) (tab_url t)) then Inr t
               else if str_or (tab_status t) ''complete'' = ''complete'' then Inr t
               else ready_loop rest runId t))"

definition waitForTabReady :: "ready_env \<Rightarrow> string \<Rightarrow> string + tab" where
  "waitForTabReady rd runId =
     (case rd_first rd of
        Inl e \<Rightarrow> Inl e
      | Inr t \<Rightarrow> ready_loop (rd_polls rd) runId t)"

function show_nat :: "nat \<Rightarrow> string" where
  "show_nat n = (if n < 10 then [''0123456789'' ! n] else show_nat (n div 10) @ [''0123456789'' ! (n mod 10)])"
  by pat_completeness auto
termination
  by (relation "measure id") auto

declare show_nat.simps [simp del]

definition sendMessageToTab :: "nat \<Rightarrow> reply \<Rightarrow> string + jv" where
  "sendMessageToTab tabId r =
     (case r of
        TimedOut \<Rightarrow> Inl (''Timed out waiting for tab '' @ show_nat tabId @ ''.'')
      | LastError m \<Rightarrow> Inl m
      | Replied v \<Rightarrow> Inr v)"

text \<open>The \<open>try\<close> block of one attempt of \<open>runContentAction\<close>.\<close>

definition content_attempt :: "platform \<Rightarrow> attempt_env \<Rightarrow> nat \<Rightarrow> jv \<Rightarrow> string \<Rightarrow> string + action_result" where
  "content_attempt P a tabId plan runId =
     (case waitForTabReady (at_ready a) runId of
        Inl e \<Rightarrow> Inl e
      | Inr t \<Rightarrow>
          if isRestrictedUrl (str_or (tab_pendingUrl t) (tab_url t))
          then Inl ''Cannot automate browser-internal pages. Open a regular website tab and retry.''
          else case at_inject a of
                 Some e \<Rightarrow> Inl e
               | None \<Rightarrow>
                   (case throwIfCanceled (at_seen_mid a) runId of
                      Some m \<Rightarrow> Inl m
                    | None \<Rightarrow>
                        (case sendMessageToTab tabId (at_reply a) of
                           Inl e \<Rightarrow> Inl e
                         | Inr response \<Rightarrow>
                             if \<not> truthy response \<or> jget response ''status'' \<noteq> JStr ''success''
                             then Inl (if truthy (jget response ''error'')
                                       then js_String P (jget response ''error'')
                                       else ''Content script returned an error.'')
                             else Inr \<lparr>ar_detail =
                                         (if truthy (jget response ''detail'')
                                          then js_String P (jget response ''detail'')
                                          else js_String P (jget plan ''action'') @ '' completed''),
                                       ar_data = jget response ''data''\<rparr>)))"

text \<open>
  \<open>runContentAction\<close>: the loop over \<open>attempt = 1 .. maxAttempts\<close>. Besides the outcome
  the model returns the number of attempts whose \<open>try\<close> block ran and the back-off delays
  taken, in milliseconds.
\<close>

definition maxAttempts :: nat where "maxAttempts = 8"

record content_run =
  cr_outcome :: "string + action_result"
  cr_attempts :: nat
  cr_delays :: "nat list"

function content_loop :: "platform \<Rightarrow> (nat \<Rightarrow> attempt_env) \<Rightarrow> nat \<Rightarrow> jv \<Rightarrow> string \<Rightarrow> nat
    \<Rightarrow> string option \<Rightarrow> content_run" where
  "content_loop P env tabId plan runId attempt lastError =
     (if attempt \<le> maxAttempts then
        (case throwIfCanceled (at_seen (env attempt)) runId of
           Some m \<Rightarrow> \<lparr>cr_outcome = Inl m, cr_attempts = 0, cr_delays = []\<rparr>
         | None \<Rightarrow>
             (case content_attempt P (env attempt) tabId plan runId of
                Inr res \<Rightarrow> \<lparr>cr_outcome = Inr res, cr_attempts = 1, cr_delays = []\<rparr>
              | Inl e \<Rightarrow>
                  if \<not> isRetryableContentError e \<or> attempt = maxAttempts
                  then \<lparr>cr_outcome = Inl e, cr_attempts = 1, cr_delays = []\<rparr>
                  else (let rest = content_loop P env tabId plan runId (attempt + 1) (Some e)
                        in \<lparr>cr_outcome = cr_outcome rest, cr_attempts = 1 + cr_attempts rest,
                             cr_delays = 180 # cr_delays rest\<rparr>)))
      else \<lparr>cr_outcome = Inl (case lastError of Some e \<Rightarrow> e
                                | None \<Rightarrow> ''Unable to run content action.''),
            cr_attempts = 0, cr_delays = []\<rparr>)"
  by pat_completeness auto
termination
  by (relation "measure (\<lambda>(P, env, tabId, plan, runId, attempt, lastError). maxAttempts + 1 - attempt)")
    auto

declare content_loop.simps [simp del]

definition runContentAction :: "platform \<Rightarrow> (nat \<Rightarrow> attempt_env) \<Rightarrow> nat \<Rightarrow> jv \<Rightarrow> string \<Rightarrow> content_run" where
  "runContentAction P env tabId plan runId = content_loop P env tabId plan runId 1 None"

text \<open>
  \<open>runTabAction\<close>. \<open>encodeURIComponent\<close> only shapes the address handed to the browser,
  which the model does not keep.
\<close>

definition navigate_tab :: "tab_env \<Rightarrow> string \<Rightarrow> string \<Rightarrow> string + action_result" where
  "navigate_tab te runId detail =
     (case te_update te of
        Some e \<Rightarrow> Inl e
      | None \<Rightarrow>
          (case waitForTabReady (te_ready te) runId of
             Inl e \<Rightarrow> Inl e
           | Inr t \<Rightarrow> Inr \<lparr>ar_detail = detail, ar_data = JUndef\<rparr>))"

definition falsy_id :: "nat option \<Rightarrow> bool" where
  "falsy_id i = (i = None \<or> i = Some 0)"

definition runTabAction :: "platform \<Rightarrow> tab_env \<Rightarrow> tab \<Rightarrow> jv \<Rightarrow> string \<Rightarrow> string + action_result" where
  "runTabAction P te t plan runId =
     (if falsy_id (tab_id t) then Inl ''Invalid tab target.''
      else case throwIfCanceled (te_seen te) runId of
        Some m \<Rightarrow> Inl m
      | None \<Rightarrow>
          (let action = normalizeAction (jget plan ''action'');
               query = trim (tmpl P (jget plan ''query''))
           in if action = ''NAVIGATE'' then
                (case normalizeHttpUrl P (jget plan ''url'') of
                   Inl e \<Rightarrow> Inl e
                 | Inr u \<Rightarrow> navigate_tab te runId (''Navigated to '' @ u))
              else if action = ''GOOGLE_SEARCH'' then
                (if query = [] then Inl ''GOOGLE_SEARCH requires a query.''
                 else navigate_tab te runId (''Searching Google for \"'' @ query @ ''\"''))
              else if action = ''SEARCH_YOUTUBE'' then
                (if query = [] then Inl ''SEARCH_YOUTUBE requires a query.''
                 else navigate_tab te runId (''Searching YouTube for \"'' @ query @ ''\"''))
              else if action \<notin> set CONTENT_ACTIONS then Inl (''Unsupported action \"'' @ action @ ''\"'')
              else cr_outcome (runContentAction P (te_attempt te) (the (tab_id t)) plan runId)))"

definition executeActionOnTab :: "platform \<Rightarrow> tab_env \<Rightarrow> tab \<Rightarrow> jv \<Rightarrow> string \<Rightarrow> tab_result" where
  "executeActionOnTab P te t plan runId =
     (case (case throwIfCanceled (te_seen te) runId of
              Some m \<Rightarrow> Inl m
            | None \<Rightarrow> runTabAction P te t plan runId) of
        Inr d \<Rightarrow>
          \<lparr>r_status = ''success'', r_tabId = tab_id t, r_title = tab_title t, r_url = tab_url t,
           r_detail = (if ar_detail d \<noteq> [] then JStr (ar_detail d)
                       else JObj [(''detail'', JStr (ar_detail d)), (''data'', ar_data d)]),
           r_data = ar_data d, r_error = None\<rparr>
      | Inl e \<Rightarrow>
          \<lparr>r_status = ''error'', r_tabId = tab_id t, r_title = tab_title t, r_url = tab_url t,
           r_detail = JUndef, r_data = JUndef, r_error = Some e\<rparr>)"

definition active_tabs :: "chrome \<Rightarrow> tab list" where
  "active_tabs ch = filter tab_active (ch_window_tabs ch)"

definition resolveTargetTabs :: "platform \<Rightarrow> chrome \<Rightarrow> jv \<Rightarrow> string + tab list" where
  "resolveTargetTabs P ch target =
     (let normalizedTarget = normalizeTarget_bg P target;
          mode = jget normalizedTarget ''mode'';
          needle = toLowerCase (js_String P (jget normalizedTarget ''value''))
      in if mode = JStr ''tab_id'' then
           (case ch_tabs_get ch (js_Number P (jget normalizedTarget ''value'')) of
              Inl e \<Rightarrow> Inl e
            | Inr None \<Rightarrow> Inr []
            | Inr (Some t) \<Rightarrow> Inr [t])
         else if mode = JStr ''active'' then Inr (active_tabs ch)
         else if mode = JStr ''all'' then Inr (ch_window_tabs ch)
         else if mode = JStr ''url_contains'' then
           Inr (filter (\<lambda>t. str_includes (toLowerCase (tab_url t)) needle) (ch_window_tabs ch))
         else if mode = JStr ''domain'' then
           Inr (filter (\<lambda>t. case pf_url P (tab_url t) of
                              None \<Rightarrow> False
                            | Some parsed \<Rightarrow> str_includes (toLowerCase (hostname parsed)) needle)
                  (ch_window_tabs ch))
         else Inr (active_tabs ch))"

text \<open>
  \<open>results.find(result => result.error)?.error || 'Failed on all tabs.'\<close>: the first
  result whose error message is a non-empty string.
\<close>

definition firstError :: "tab_result list \<Rightarrow> string" where
  "firstError results =
     (case find (\<lambda>r. case r_error r of None \<Rightarrow> False | Some e \<Rightarrow> e \<noteq> []) results of
        Some r \<Rightarrow> (case r_error r of Some e \<Rightarrow> e | None \<Rightarrow> [])
      | None \<Rightarrow> ''Failed on all tabs.'')"

text \<open>Lines 119 to 134 of \<open>executeAgentPlan\<close>: the dispatch to the resolved tabs.\<close>

definition dispatch_to_tabs :: "platform \<Rightarrow> chrome \<Rightarrow> jv \<Rightarrow> string \<Rightarrow> string + bg_response" where
  "dispatch_to_tabs P ch plan runId =
     (case resolveTargetTabs P ch (jget plan ''target'') of
        Inl e \<Rightarrow> Inl e
      | Inr tabs \<Rightarrow>
          if tabs = [] then Inl ''No matching tabs found for this action.''
          else (let results = map (\<lambda>t. executeActionOnTab P (ch_tab_env ch t) t plan runId) tabs;
                    successCount = length (filter (\<lambda>r. r_status r = ''success'') results)
                in if successCount = 0
                   then Inr \<lparr>b_status = ''error'', b_error = Some (firstError results), b_detail = None,
                             b_durationMs = Some (ch_elapsed ch), b_results = results\<rparr>
                   else Inr \<lparr>b_status = ''success'', b_error = None, b_detail = None,
                             b_durationMs = Some (ch_elapsed ch), b_results = results\<rparr>))"

text \<open>\<^verbatim>\<open>{ ...rawPlan, action }\<close>\<close>

definition with_action :: "jv \<Rightarrow> string \<Rightarrow> jv" where
  "with_action rawPlan action =
     (case rawPlan of
        JObj kvs \<Rightarrow> JObj ((''action'', JStr action) # kvs)
      | _ \<Rightarrow> JObj [(''action'', JStr action)])"

definition single_result :: "chrome \<Rightarrow> tab_result \<Rightarrow> bg_response" where
  "single_result ch r = \<lparr>b_status = ''success'', b_error = None, b_detail = None,
     b_durationMs = Some (ch_elapsed ch), b_results = [r]\<rparr>"

definition plain_result :: "string \<Rightarrow> tab_result" where
  "plain_result d = \<lparr>r_status = ''success'', r_tabId = None, r_title = [], r_url = [],
     r_detail = JStr d, r_data = JUndef, r_error = None\<rparr>"

text \<open>
  A tab id as the results carry it: the browser numbers its tabs with integers, and
  \<open>chrome.tabs.update\<close> rejects any other number.
\<close>

fun tab_number :: "jsnum \<Rightarrow> nat option" where
  "tab_number (Fin q) = (if q = of_nat (nat \<lfloor>q\<rfloor>) then Some (nat \<lfloor>q\<rfloor>) else None)"
| "tab_number n = None"

text \<open>
  \<open>executeAgentPlan\<close>. The result is \<open>RUN_STATES\<close> after the call's own write, and what
  the call throws (\<open>Inl\<close>) or returns.
\<close>

definition executeAgentPlan :: "platform \<Rightarrow> chrome \<Rightarrow> run_states \<Rightarrow> jv \<Rightarrow> string
    \<Rightarrow> run_states \<times> (string + bg_response)" where
  "executeAgentPlan P ch st rawPlan runId =
     (if \<not> truthy rawPlan \<or> \<not> typeof_object rawPlan then (st, Inl ''Invalid plan step.'')
      else (let action = normalizeAction (jget rawPlan ''action'')
            in if action = [] then (st, Inl ''Plan action is missing.'')
               else (let st1 = setRunState st (ch_now ch) runId False;
                         plan = with_action rawPlan action
                     in case throwIfCanceled st1 runId of
                          Some m \<Rightarrow> (st1, Inl m)
                        | None \<Rightarrow>
                            (st1,
                             if action = ''WAIT'' then
                               (let waitMs = clamp (num_or (js_Number P (jget plan ''ms'')) (Fin 800))
                                               (Fin 80) (Fin 20000)
                                in case waitWithCancellation (ch_wait_polls ch) runId of
                                     Some m \<Rightarrow> Inl m
                                   | None \<Rightarrow>
                                       Inr (single_result ch
                                         (plain_result (''Waited '' @ js_String P (JNum waitMs) @ ''ms''))))
                             else if action = ''OPEN_TAB'' then
                               (case normalizeHttpUrl P (jget plan ''url'') of
                                  Inl e \<Rightarrow> Inl e
                                | Inr u \<Rightarrow>
                                    (case ch_tabs_create ch u (truthy (jget plan ''active'')) of
                                       Inl e \<Rightarrow> Inl e
                                     | Inr t \<Rightarrow>
                                         Inr (single_result ch
                                           ((plain_result (''Opened new tab: '' @ u))
                                              \<lparr>r_tabId := tab_id t, r_title := tab_title t,
                                               r_url := tab_url t\<rparr>))))
                             else if action = ''SWITCH_TAB'' then
                               (let targetTabId = js_Number P (jget plan ''tabId'')
                                in if \<not> isFinite targetTabId \<or> \<not> num_pos targetTabId
                                   then Inl ''SWITCH_TAB requires a valid tabId.''
                                   else case ch_tabs_activate ch targetTabId of
                                          Some e \<Rightarrow> Inl e
                                        | None \<Rightarrow>
                                            Inr (single_result ch
                                              ((plain_result (''Switched to tab #''
                                                  @ js_String P (JNum targetTabId)))
                                                 \<lparr>r_tabId := tab_number targetTabId\<rparr>)))
                             else dispatch_to_tabs P ch plan runId))))"

text \<open>
  The two messages that touch \<open>RUN_STATES\<close>, as the listener of the worker dispatches
  them, and the state after a sequence of them.
\<close>

datatype message = EXECUTE_AGENT_PLAN jv string | CANCEL_AGENT_RUN string

fun handle_message :: "platform \<Rightarrow> chrome \<Rightarrow> run_states \<Rightarrow> message \<Rightarrow> run_states" where
  "handle_message P ch st (EXECUTE_AGENT_PLAN plan runId) = fst (executeAgentPlan P ch st plan runId)"
| "handle_message P ch st (CANCEL_AGENT_RUN runId) = fst (cancelAgentRun st (ch_now ch) runId)"

section \<open>The step loop of the orchestrator (agent.js)\<close>

text \<open>A thrown \<open>Error\<close>: its \<open>name\<close> and \<open>message\<close>.\<close>

record js_error =
  e_name :: string
  e_message :: string

definition createAbortError :: js_error where
  "createAbortError = \<lparr>e_name = ''AbortError'', e_message = ''Request canceled''\<rparr>"

definition plain_error :: "string \<Rightarrow> js_error" where
  "plain_error m = \<lparr>e_name = ''Error'', e_message = m\<rparr>"

text \<open>\<^verbatim>\<open>/aborted|canceled|cancelled/i\<close>\<close>

definition rx_abort :: rx where
  "rx_abort = Alts [Lit ''aborted'', Lit ''canceled'', Lit ''cancelled'']"

definition isAbortError :: "js_error \<Rightarrow> bool" where
  "isAbortError e = (e_name e = ''AbortError'' \<or> rx_test True rx_abort (e_message e))"

text \<open>
  The collaborators of a run. A run is one thread of control; the world moves only while
  it is suspended, so the environment is indexed by the number of suspensions so far
  (the tick): what \<open>shouldStop()\<close> and \<open>signal.aborted\<close> answer at a tick, how a message
  sent or an approval asked at a tick settles, and how many 40 ms polls a delay started at
  a tick makes before its time is up.
\<close>

datatype send_outcome = AbortedInFlight | RuntimeLastError string | Answered jv

record agent_env =
  ae_shouldStop :: "nat \<Rightarrow> bool"
  ae_aborted :: "nat \<Rightarrow> bool"
  ae_has_approval_ui :: bool
  ae_approval :: "nat \<Rightarrow> js_error + jv"
  ae_send :: "nat \<Rightarrow> send_outcome"
  ae_delay_polls :: "nat \<Rightarrow> nat"

text \<open>
  What a run shows and sends, in order. The texts that \<open>formatStepSummary\<close> and
  \<open>redactSensitiveText\<close> shape are kept as the data they are made from.
\<close>

datatype event =
    Status string
  | StepLogged nat jv
  | BotMessage string
  | SkippedLog string string
  | Sent jv
  | Completed jv jv
  | RecoveryLog string
  | ActionFailed string
  | Remediation string string
  | RunSummary nat nat nat
  | ExecutionStoppedLog
  | ProcessStopped

record loop_state =
  ls_tick :: nat
  ls_events :: "event list"
  ls_successCount :: nat
  ls_skippedCount :: nat
  ls_failureCount :: nat
  ls_currentHost :: string

definition emit :: "event list \<Rightarrow> loop_state \<Rightarrow> loop_state" where
  "emit es s = s\<lparr>ls_events := ls_events s @ es\<rparr>"

text \<open>\<open>sendCommandToBackground\<close> through \<open>sendRuntimeMessage\<close>.\<close>

definition sendCommandToBackground :: "platform \<Rightarrow> agent_env \<Rightarrow> jv \<Rightarrow> loop_state
    \<Rightarrow> loop_state \<times> (js_error + jv)" where
  "sendCommandToBackground P env planStep s =
     (if ae_aborted env (ls_tick s) then (s, Inl createAbortError)
      else (let s1 = (emit [Sent planStep] s)\<lparr>ls_tick := ls_tick s + 1\<rparr>
            in case ae_send env (ls_tick s) of
                 AbortedInFlight \<Rightarrow> (s1, Inl createAbortError)
               | RuntimeLastError m \<Rightarrow> (s1, Inl (plain_error m))
               | Answered response \<Rightarrow>
                   if truthy response \<and> jget response ''status'' = JStr ''error''
                   then (s1, Inl (plain_error
                                    (if truthy (jget response ''error'')
                                     then js_String P (jget response ''error'')
                                     else ''Unknown execution error.'')))
                   else (s1, Inr (if truthy response then response
                                  else JObj [(''status'', JStr ''success'')]))))"

definition shouldAttemptRecovery :: "jv \<Rightarrow> string \<Rightarrow> bool" where
  "shouldAttemptRecovery step message =
     (if \<not> truthy step \<or> action_of step \<notin> set [''CLICK'', ''TYPE'', ''FILL_FORM''] then False
      else (let normalized = toLowerCase message
            in str_includes normalized ''element not found''
               \<or> str_includes normalized ''could not find element''
               \<or> str_includes normalized ''input not found''
               \<or> str_includes normalized ''no form fields matched''))"

definition executeStepWithRecovery :: "platform \<Rightarrow> agent_env \<Rightarrow> jv \<Rightarrow> loop_state
    \<Rightarrow> loop_state \<times> (js_error + jv)" where
  "executeStepWithRecovery P env step s =
     (case sendCommandToBackground P env step s of
        (s1, Inr response) \<Rightarrow> (s1, Inr response)
      | (s1, Inl error) \<Rightarrow>
          if \<not> shouldAttemptRecovery step (e_message error) then (s1, Inl error)
          else if ae_shouldStop env (ls_tick s1) then (s1, Inl createAbortError)
          else (let s2 = emit [RecoveryLog (action_of step)] s1;
                    s3 = fst (sendCommandToBackground P env
                                (JObj [(''action'', JStr ''ANALYZE_PAGE''), (''includeText'', JBool False),
                                       (''maxTextChars'', JNum (Fin 1200)),
                                       (''target'', jget step ''target'')]) s2)
                in if ae_shouldStop env (ls_tick s3) then (s3, Inl createAbortError)
                   else sendCommandToBackground P env step s3))"

definition requestApprovalIfNeeded :: "agent_env \<Rightarrow> jv \<Rightarrow> loop_state \<Rightarrow> loop_state \<times> (js_error + jv)" where
  "requestApprovalIfNeeded env step s =
     (if ae_shouldStop env (ls_tick s)
      then (s, Inr (JObj [(''approved'', JBool False), (''reason'', JStr ''canceled'')]))
      else if \<not> ae_has_approval_ui env
      then (s, Inr (JObj [(''approved'', JBool True), (''reason'', JStr ''ui-unavailable'')]))
      else (let s1 = s\<lparr>ls_tick := ls_tick s + 1\<rparr>
            in case ae_approval env (ls_tick s) of
                 Inl e \<Rightarrow> (s1, Inl e)
               | Inr result \<Rightarrow>
                   (s1, Inr (if truthy result \<and> typeof_object result then result
                             else JObj [(''approved'', JBool False),
                                        (''reason'', JStr ''invalid-response'')]))))"

text \<open>\<open>cancellableDelay\<close>: one check of the stop predicate and of the signal per poll.\<close>

fun cancellableDelay :: "agent_env \<Rightarrow> nat \<Rightarrow> loop_state \<Rightarrow> loop_state \<times> js_error option" where
  "cancellableDelay env 0 s = (s, None)"
| "cancellableDelay env (Suc polls) s =
     (if ae_shouldStop env (ls_tick s) then (s, Some createAbortError)
      else if ae_aborted env (ls_tick s) then (s, Some createAbortError)
      else cancellableDelay env polls (s\<lparr>ls_tick := ls_tick s + 1\<rparr>))"

text \<open>
  The \<open>for\<close> loop over the plan. \<open>n\<close> is \<open>plan.length\<close>, \<open>index\<close> the loop counter
  and the list the steps from \<open>index\<close> on. The result is the state when the loop is left
  and the error thrown out of it, if any; \<open>break\<close> leaves it without an error.
\<close>

fun step_loop :: "platform \<Rightarrow> agent_env \<Rightarrow> string \<Rightarrow> nat \<Rightarrow> nat \<Rightarrow> jv list \<Rightarrow> loop_state
    \<Rightarrow> loop_state \<times> js_error option" where
  "step_loop P env prompt n index [] s = (s, None)"
| "step_loop P env prompt n index (step # rest) s =
     (if ae_shouldStop env (ls_tick s) then (s, Some createAbortError)
      else (let s1 = emit [Status (action_of step), StepLogged (index + 1) step] s
            in if action_of step = ''REPLY''
               then step_loop P env prompt n (index + 1) rest
                      ((emit [BotMessage (tmpl P (jget step ''message''))] s1)
                         \<lparr>ls_successCount := ls_successCount s1 + 1\<rparr>)
               else (let riskInfo = classifyStepRisk P step prompt (ls_currentHost s1)
                     in case (if level riskInfo = High then requestApprovalIfNeeded env step s1
                              else (s1, Inr (JObj [(''approved'', JBool True)]))) of
                          (s2, Inl e) \<Rightarrow> (s2, Some e)
                        | (s2, Inr approval) \<Rightarrow>
                            if \<not> truthy (jget approval ''approved'')
                            then step_loop P env prompt n (index + 1) rest
                                   ((emit [SkippedLog (action_of step)
                                             (if truthy (jget approval ''reason'')
                                              then js_String P (jget approval ''reason'')
                                              else ''denied'')] s2)
                                      \<lparr>ls_skippedCount := ls_skippedCount s2 + 1\<rparr>)
                            else (case executeStepWithRecovery P env step s2 of
                                    (s3, Inl error) \<Rightarrow>
                                      ((emit [ActionFailed (e_message error),
                                              Remediation (action_of step) (e_message error)] s3)
                                         \<lparr>ls_failureCount := ls_failureCount s3 + 1\<rparr>,
                                       None)
                                  | (s3, Inr response) \<Rightarrow>
                                      (let s4 = (emit [Completed step response] s3)
                                                  \<lparr>ls_successCount := ls_successCount s3 + 1,
                                                   ls_currentHost := str_or (getHostFromStep P step)
                                                                    (ls_currentHost s3)\<rparr>
                                       in if index + 1 < n
                                          then (case cancellableDelay env
                                                       (ae_delay_polls env (ls_tick s4)) s4 of
                                                  (s5, Some e) \<Rightarrow> (s5, Some e)
                                                | (s5, None) \<Rightarrow>
                                                    step_loop P env prompt n (index + 1) rest s5)
                                          else step_loop P env prompt n (index + 1) rest s4)))))"

datatype outcome = Done | Stopped | Failed string

text \<open>
  Lines 113 to 186 of \<open>processAgentCommand\<close>: the plan in hand, the loop, the summary,
  and the \<open>catch\<close> that tells a stop from a failure.
\<close>

definition run_plan :: "platform \<Rightarrow> agent_env \<Rightarrow> string \<Rightarrow> jv list \<Rightarrow> string \<Rightarrow> nat
    \<Rightarrow> outcome \<times> loop_state" where
  "run_plan P env prompt plan activeHost tick =
     (let s0 = \<lparr>ls_tick = tick, ls_events = [], ls_successCount = 0, ls_skippedCount = 0,
                 ls_failureCount = 0, ls_currentHost = activeHost\<rparr>
      in case (if plan = [] then (s0, Some (plain_error ''Planner returned an empty action plan.''))
               else step_loop P env prompt (length plan) 0 plan s0) of
           (s, None) \<Rightarrow>
             (Done, emit [RunSummary (ls_successCount s) (ls_skippedCount s) (ls_failureCount s),
                          Status ''Agent ready''] s)
         | (s, Some error) \<Rightarrow>
             if isAbortError error \<or> ae_shouldStop env (ls_tick s)
             then (Stopped, emit [ExecutionStoppedLog, ProcessStopped, Status ''Agent ready''] s)
             else (Failed (''Agent execution failed: '' @ e_message error), s))"

section \<open>Local planning (agent.js)\<close>

definition DIRECT_SITE_MAP :: "(string \<times> string) list" where
  "DIRECT_SITE_MAP =
     [(''facebook'', ''https://www.facebook.com/''),
      (''instagram'', ''https://www.instagram.com/''),
      (''youtube'', ''https://www.youtube.com/''),
      (''gmail'', ''https://mail.google.com/''),
      (''google'', ''https://www.google.com/''),
      (''twitter'', ''https://x.com/''),
      (''x'', ''https://x.com/''),
      (''linkedin'', ''https://www.linkedin.com/''),
      (''github'', ''https://github.com/''),
      (''reddit'', ''https://www.reddit.com/'')]"

text \<open>\<^verbatim>\<open>/\b(go to|goto|goes to|open|navigate to|visit|take me to)\b/i\<close>\<close>

definition rx_navigation_intent :: rx where
  "rx_navigation_intent = Seqs [Bnd,
     Grp 1 (Alts [Lit ''go to'', Lit ''goto'', Lit ''goes to'', Lit ''open'', Lit ''navigate to'',
                  Lit ''visit'', Lit ''take me to'']),
     Bnd]"

text \<open>\<^verbatim>\<open>/\b(play|music|song|playlist|youtube search|search youtube|video)\b/i\<close>\<close>

definition rx_media_intent :: rx where
  "rx_media_intent = Seqs [Bnd,
     Grp 1 (Alts [Lit ''play'', Lit ''music'', Lit ''song'', Lit ''playlist'', Lit ''youtube search'',
                  Lit ''search youtube'', Lit ''video'']),
     Bnd]"

text \<open>\<^verbatim>\<open>/https?:\/\/[^\s)]+/i\<close>\<close>

definition rx_explicit_url :: rx where
  "rx_explicit_url = Seqs [Lit ''http'', Opt (Lit ''s''), Lit ''://'',
     Plus (NCls [CSpace, CChr (CHR '')'')])]"

text \<open>\<^verbatim>\<open>/\b([a-z0-9-]+(?:\.[a-z0-9-]+)+)(?:\/[^\s]*)?\b/i\<close>\<close>

definition rx_domain :: rx where
  "rx_domain =
     (let label = Plus (Cls [CRng (CHR ''a'') (CHR ''z''), CRng (CHR ''0'') (CHR ''9''), CChr (CHR ''-'')])
      in Seqs [Bnd, Grp 1 (Seq label (Plus (Seq (Lit ''.'') label))),
               Opt (Seq (Lit ''/'') (Star (NCls [CSpace]))), Bnd])"

text \<open>\<^verbatim>\<open>/\b(register|sign up|signup|login|log in|sign in)\b/i\<close>\<close>

definition rx_fast_auth :: rx where
  "rx_fast_auth = Seqs [Bnd,
     Grp 1 (Alts [Lit ''register'', Lit ''sign up'', Lit ''signup'', Lit ''login'', Lit ''log in'',
                  Lit ''sign in'']),
     Bnd]"

text \<open>
  The three patterns of \<open>extractAuthDetails\<close>,
  \<^verbatim>\<open>/(KEY)\s*(?:is|=|:)?\s*([^\s,;]+)/i\<close> with \<open>KEY\<close> one of \<^verbatim>\<open>email|e-mail\<close>,
  \<^verbatim>\<open>password|pass\<close>, \<^verbatim>\<open>username|user\<close>.
\<close>

definition rx_value_of :: "string list \<Rightarrow> rx" where
  "rx_value_of keys = Seqs [Grp 1 (Alts (map Lit keys)), Star (Cls [CSpace]),
     Opt (Alts [Lit ''is'', Lit ''='', Lit '':'']), Star (Cls [CSpace]),
     Grp 2 (Plus (NCls [CSpace, CChr (CHR '',''), CChr (CHR '';'')]))]"

text \<open>\<^verbatim>\<open>/\b(password|pass)\s+random\b/i\<close> and \<^verbatim>\<open>/\b(email)\s+random\b/i\<close>\<close>

definition rx_key_random :: "string list \<Rightarrow> rx" where
  "rx_key_random keys = Seqs [Bnd, Grp 1 (Alts (map Lit keys)), Plus (Cls [CSpace]), Lit ''random'', Bnd]"

text \<open>\<^verbatim>\<open>/\brandom password\b/i\<close> and \<^verbatim>\<open>/\brandom email\b/i\<close>\<close>

definition rx_random_key :: "string \<Rightarrow> rx" where
  "rx_random_key key = Seqs [Bnd, Lit (''random '' @ key), Bnd]"

text \<open>\<^verbatim>\<open>/^random$/i\<close>\<close>

definition rx_random_only :: rx where
  "rx_random_only = Seqs [Bol, Lit ''random'', Eol]"

text \<open>\<^verbatim>\<open>s.replace(/^["']|["']$/g, '')\<close>: one quote off the front, then one off the end.\<close>

definition is_quote :: "char \<Rightarrow> bool" where
  "is_quote c = (c = CHR 0x22 \<or> c = CHR 0x27)"

definition strip_quotes :: "string \<Rightarrow> string" where
  "strip_quotes s =
     (let rest = (case s of [] \<Rightarrow> [] | c # cs \<Rightarrow> if is_quote c then cs else s)
      in if rest \<noteq> [] \<and> is_quote (last rest) then butlast rest else rest)"

definition extractPromptValue :: "string \<Rightarrow> rx \<Rightarrow> string" where
  "extractPromptValue prompt regex =
     (case rx_match True regex prompt of
        None \<Rightarrow> []
      | Some m \<Rightarrow>
          (case group m 2 of
             None \<Rightarrow> []
           | Some g \<Rightarrow> if g = [] then [] else strip_quotes (trim g)))"

text \<open>
  Time and chance: \<open>Date.now()\<close> and the successive results of \<open>Math.random()\<close>, each
  a number from 0 up to but not including 1.
\<close>

record chance =
  ce_now :: nat
  ce_random :: "nat \<Rightarrow> rat"

definition password_chars :: string where
  "password_chars = ''ABCDEFGHJKLMNPQRSTUVWXYZabcdefghijkmnopqrstuvwxyz23456789!@#$%''"

text \<open>\<open>s.charAt(i)\<close>: the empty string outside the string.\<close>

definition charAt :: "string \<Rightarrow> int \<Rightarrow> string" where
  "charAt s i = (if 0 \<le> i \<and> i < int (length s) then [s ! nat i] else [])"

text \<open>
  \<open>generateRandomPassword\<close> draws twelve characters at
  \<^verbatim>\<open>Math.floor(Math.random() * chars.length)\<close>. The product is taken exactly here;
  the product of two doubles is rounded, which can move a draw to the next character of
  the alphabet but never outside it, since the largest double below 1 times 62 rounds to a
  double below 62.
\<close>

definition generateRandomPassword :: "chance \<Rightarrow> string" where
  "generateRandomPassword R =
     concat (map (\<lambda>i. charAt password_chars \<lfloor>ce_random R i * of_nat (length password_chars)\<rfloor>)
               [0..<12])"

text \<open>\<open>s.slice(-6)\<close>\<close>

definition last6 :: "string \<Rightarrow> string" where
  "last6 s = drop (length s - 6) s"

text \<open>\<^verbatim>\<open>Date.now().toString().slice(-6)\<close>\<close>

definition time_stamp :: "chance \<Rightarrow> string" where
  "time_stamp R = last6 (show_nat (ce_now R))"

record auth_details =
  ad_email :: string
  ad_password :: string
  ad_username :: string

definition extractAuthDetails :: "chance \<Rightarrow> string \<Rightarrow> auth_details" where
  "extractAuthDetails R prompt =
     (let email = extractPromptValue prompt (rx_value_of [''email'', ''e-mail'']);
          passwordRaw = extractPromptValue prompt (rx_value_of [''password'', ''pass'']);
          username = extractPromptValue prompt (rx_value_of [''username'', ''user'']);
          wantsRandomPassword = (rx_test True (rx_key_random [''password'', ''pass'']) prompt
                                 \<or> rx_test True (rx_random_key ''password'') prompt);
          wantsRandomEmail = (rx_test True (rx_key_random [''email'']) prompt
                              \<or> rx_test True (rx_random_key ''email'') prompt);
          safeEmail = (if email \<noteq> [] \<and> \<not> wantsRandomEmail then email
                       else ''user'' @ time_stamp R @ ''@example.com'');
          safePassword = (if passwordRaw \<noteq> [] \<and> \<not> wantsRandomPassword
                             \<and> \<not> rx_test True rx_random_only passwordRaw
                          then passwordRaw
                          else generateRandomPassword R);
          safeUsername = str_or username (takeWhile (\<lambda>c. c \<noteq> CHR ''@'') safeEmail)
      in \<lparr>ad_email = safeEmail, ad_password = safePassword, ad_username = safeUsername\<rparr>)"

definition form_field :: "string \<Rightarrow> string \<Rightarrow> string \<Rightarrow> jv" where
  "form_field name type v = JObj [(''label'', JStr name), (''name'', JStr name), (''type'', JStr type),
     (''value'', JStr v)]"

definition maybeBuildFastPlan :: "platform \<Rightarrow> chance \<Rightarrow> string \<Rightarrow> jv \<Rightarrow> jv option" where
  "maybeBuildFastPlan P R prompt defaultTarget =
     (let normalizedPrompt = toLowerCase prompt;
          hasAuthIntent = rx_test True rx_fast_auth normalizedPrompt;
          u = (case rx_match True rx_explicit_url prompt of
                 None \<Rightarrow> []
               | Some m \<Rightarrow> sanitizeUrl P (JStr (fst (snd m))))
      in if hasAuthIntent \<and> u \<noteq> [] then
           (let details = extractAuthDetails R prompt
            in Some (JArr
                 [JObj [(''action'', JStr ''NAVIGATE''), (''url'', JStr u), (''target'', defaultTarget)],
                  JObj [(''action'', JStr ''ANALYZE_PAGE''), (''includeText'', JBool True),
                        (''maxTextChars'', JNum (Fin 2500)), (''target'', defaultTarget)],
                  JObj [(''action'', JStr ''FILL_FORM''),
                        (''fields'', JArr
                           [form_field ''email'' ''email'' (ad_email details),
                            form_field ''username'' ''text'' (ad_username details),
                            form_field ''password'' ''password'' (ad_password details),
                            form_field ''confirm password'' ''password'' (ad_password details)]),
                        (''submit'', JBool True), (''target'', defaultTarget)]]))
         else None)"

definition resolveNavigationUrl :: "platform \<Rightarrow> string \<Rightarrow> string" where
  "resolveNavigationUrl P prompt =
     (case rx_match True rx_explicit_url prompt of
        Some m \<Rightarrow> sanitizeUrl P (JStr (fst (snd m)))
      | None \<Rightarrow>
          (case rx_match True rx_domain prompt of
             Some m \<Rightarrow>
               (let domain = fst (snd m)
                in sanitizeUrl P (JStr (if rx_test True rx_http_prefix domain then domain
                                        else ''https://'' @ domain)))
           | None \<Rightarrow>
               (case find (\<lambda>(keyword, u). rx_test True (Seqs [Bnd, Lit keyword, Bnd]) (toLowerCase prompt))
                       DIRECT_SITE_MAP of
                  Some (keyword, u) \<Rightarrow> u
                | None \<Rightarrow> [])))"

definition maybeBuildDeterministicPlan :: "platform \<Rightarrow> string \<Rightarrow> jv \<Rightarrow> jv option" where
  "maybeBuildDeterministicPlan P prompt defaultTarget =
     (let normalizedPrompt = toLowerCase prompt;
          hasNavigationIntent = rx_test True rx_navigation_intent normalizedPrompt;
          hasMediaIntent = rx_test True rx_media_intent normalizedPrompt
      in if \<not> hasNavigationIntent \<or> hasMediaIntent then None
         else (let resolvedUrl = resolveNavigationUrl P prompt
               in if resolvedUrl = [] then None
                  else Some (JArr [JObj [(''action'', JStr ''NAVIGATE''), (''url'', JStr resolvedUrl),
                                         (''target'', defaultTarget)]])))"

text \<open>
  The choice of the plan in \<open>processAgentCommand\<close> before any call of the model: the
  deterministic plan if there is one, else the fast plan, each sanitized; \<open>None\<close> when
  the model has to be asked.
\<close>

datatype plan_source = Deterministic | FastPlan

definition local_plan :: "platform \<Rightarrow> chance \<Rightarrow> string \<Rightarrow> jv \<Rightarrow> (plan_source \<times> jv list) option" where
  "local_plan P R prompt defaultTarget =
     (case maybeBuildDeterministicPlan P prompt defaultTarget of
        Some deterministicPlan \<Rightarrow> Some (Deterministic, sanitizePlan P deterministicPlan defaultTarget)
      | None \<Rightarrow>
          (case maybeBuildFastPlan P R prompt defaultTarget of
             Some fastPlan \<Rightarrow> Some (FastPlan, sanitizePlan P fastPlan defaultTarget)
           | None \<Rightarrow> None))"

section \<open>Statements of the specification, as functions\<close>



section \<open>The sanitizer as a call: conversions that throw\<close>

text \<open>
  \<open>String(v)\<close> and \<open>Number(v)\<close> first turn an object into a primitive: they call its
  \<open>toString\<close> and \<open>valueOf\<close> where these are functions, in the order the conversion
  asks for, and throw a \<open>TypeError\<close> when neither call gives a primitive. The values of
  the model are those decoded from JSON, so a member of an object is never a function. An
  object without a member named \<open>toString\<close> inherits the one of \<open>Object.prototype\<close>,
  which answers \<open>[object Object]\<close>; with such a member of its own the object has no
  callable \<open>toString\<close>, the inherited \<open>valueOf\<close> answers the object itself, and the
  conversion throws. An array inherits \<open>Array.prototype.toString\<close>, which joins the
  strings of its elements (none for \<open>null\<close>) and so throws when the conversion of an
  element does.
\<close>

datatype exn = TypeError

fun toPrimitive_throws :: "jv \<Rightarrow> bool" where
  "toPrimitive_throws (JObj kvs) = (map_of kvs ''toString'' \<noteq> None)"
| "toPrimitive_throws (JArr xs) = (\<exists>x \<in> set xs. toPrimitive_throws x)"
| "toPrimitive_throws v = False"

text \<open>
  The calls \<open>Number(v)\<close> and \<open>String(v)\<close> with their two outcomes. \<open>js_Number\<close> and
  \<open>js_String\<close> are the values of the calls that return.
\<close>

definition Number_call :: "platform \<Rightarrow> jv \<Rightarrow> exn + jsnum" where
  "Number_call P v = (if toPrimitive_throws v then Inl TypeError else Inr (js_Number P v))"

definition String_call :: "platform \<Rightarrow> jv \<Rightarrow> exn + string" where
  "String_call P v = (if toPrimitive_throws v then Inl TypeError else Inr (js_String P v))"

text \<open>
  \<open>normalizeTarget\<close> of agent.js with the outcome of its two conversions: the mode is
  converted for every target that is an object, the tab id only under the mode \<open>tab_id\<close>.
\<close>

definition normalizeTarget_call :: "platform \<Rightarrow> jv \<Rightarrow> jv \<Rightarrow> exn + jv" where
  "normalizeTarget_call P target fallback =
     (let fallbackTarget = (if typeof_object fallback \<and> truthy fallback then fallback
                            else mode_only ''active'')
      in if \<not> truthy target then Inr fallbackTarget
         else case target of
           JStr s \<Rightarrow>
             (let normalized = trim (toLowerCase s)
              in if normalized = ''all'' then Inr (mode_only ''all'')
                 else if normalized = ''active'' \<or> normalized = ''current''
                   then Inr (mode_only ''active'')
                 else if str_includes normalized ''.'' \<and> \<not> str_includes normalized '' ''
                   then Inr (mode_value ''domain'' (JStr normalized))
                 else Inr fallbackTarget)
         | _ \<Rightarrow>
             if \<not> typeof_object target then Inr fallbackTarget
             else (let m = jget target ''mode''
                   in case String_call P (if truthy m then m else JStr []) of
                        Inl e \<Rightarrow> Inl e
                      | Inr str \<Rightarrow>
                          (let mode = toLowerCase str
                           in if mode = ''all'' \<or> mode = ''active'' then Inr (mode_only mode)
                              else if mode = ''tab_id'' then
                                (case Number_call P (nullish_or (jget target ''value'')
                                                                (jget target ''tabId'')) of
                                   Inl e \<Rightarrow> Inl e
                                 | Inr tabId \<Rightarrow>
                                     if isFinite tabId \<and> num_pos tabId
                                     then Inr (mode_value ''tab_id'' (JNum tabId))
                                     else Inr fallbackTarget)
                              else if mode = ''url_contains'' \<or> mode = ''domain'' then
                                (let v = toLowerCase (sanitizeText (jget target ''value'') 120)
                                 in if v \<noteq> [] then Inr (mode_value mode (JStr v))
                                    else Inr fallbackTarget)
                              else Inr fallbackTarget)))"

text \<open>
  The \<open>switch\<close> of \<open>sanitizePlan\<close> with the outcome of the conversion that four of its
  cases make; the other cases convert nothing and are those of \<open>sanitizeAction\<close>.
\<close>

definition sanitizeAction_call :: "platform \<Rightarrow> string \<Rightarrow> jv
    \<Rightarrow> exn + (string \<times> jv) list option" where
  "sanitizeAction_call P action rawStep =
     (if action = ''SWITCH_TAB'' then
        (case Number_call P (jget rawStep ''tabId'') of
           Inl e \<Rightarrow> Inl e
         | Inr tabId \<Rightarrow>
             if \<not> isFinite tabId \<or> \<not> num_pos tabId then Inr None
             else Inr (Some [(''tabId'', JNum tabId)]))
      else if action = ''ANALYZE_PAGE'' then
        (case Number_call P (jget rawStep ''maxTextChars'') of
           Inl e \<Rightarrow> Inl e
         | Inr n \<Rightarrow>
             Inr (Some [(''includeText'', JBool (jget rawStep ''includeText'' \<noteq> JBool False)),
                        (''maxTextChars'',
                         JNum (clamp (num_or n (Fin 3000)) (Fin 600) (Fin 9000)))]))
      else if action = ''SCRAPE_PAGE'' then
        (case Number_call P (jget rawStep ''maxChars'') of
           Inl e \<Rightarrow> Inl e
         | Inr n \<Rightarrow>
             Inr (Some [(''maxChars'',
                         JNum (clamp (num_or n (Fin 5000)) (Fin 800) (Fin 15000)))]))
      else if action = ''WAIT'' then
        (case Number_call P (jget rawStep ''ms'') of
           Inl e \<Rightarrow> Inl e
         | Inr n \<Rightarrow>
             Inr (Some [(''ms'', JNum (clamp (num_or n (Fin 800)) (Fin 80) (Fin 20000)))]))
      else Inr (sanitizeAction P action rawStep))"

text \<open>
  The body of the loop for one raw step: the target is normalized before the \<open>switch\<close>,
  so a target that throws ends the call even where the \<open>switch\<close> would drop the step.
\<close>

definition sanitizeStep_call :: "platform \<Rightarrow> jv \<Rightarrow> jv \<Rightarrow> exn + jv option" where
  "sanitizeStep_call P defaultTarget rawStep =
     (if \<not> truthy rawStep \<or> \<not> typeof_object rawStep then Inr None
      else (let action = (case jget rawStep ''action'' of
                            JStr a \<Rightarrow> toUpperCase (trim a)
                          | _ \<Rightarrow> [])
            in if action \<notin> set ALLOWED_ACTIONS then Inr None
               else case (if action \<in> set TAB_ACTIONS
                          then (case normalizeTarget_call P (jget rawStep ''target'') defaultTarget of
                                  Inl e \<Rightarrow> Inl e
                                | Inr t \<Rightarrow> Inr [(''target'', t)])
                          else Inr []) of
                      Inl e \<Rightarrow> Inl e
                    | Inr target \<Rightarrow>
                        (case sanitizeAction_call P action rawStep of
                           Inl e \<Rightarrow> Inl e
                         | Inr None \<Rightarrow> Inr None
                         | Inr (Some members) \<Rightarrow>
                             Inr (Some (JObj ([(''action'', JStr action)] @ target @ members))))))"

text \<open>The \<open>for\<close> loop: the first raw step that throws ends it.\<close>

fun sanitize_loop :: "platform \<Rightarrow> jv \<Rightarrow> jv list \<Rightarrow> exn + jv list" where
  "sanitize_loop P defaultTarget [] = Inr []"
| "sanitize_loop P defaultTarget (rawStep # rest) =
     (case sanitizeStep_call P defaultTarget rawStep of
        Inl e \<Rightarrow> Inl e
      | Inr r \<Rightarrow>
          (case sanitize_loop P defaultTarget rest of
             Inl e \<Rightarrow> Inl e
           | Inr sanitized \<Rightarrow>
               Inr (case r of None \<Rightarrow> sanitized | Some step \<Rightarrow> step # sanitized)))"

definition sanitizePlan_call :: "platform \<Rightarrow> jv \<Rightarrow> jv \<Rightarrow> exn + jv list" where
  "sanitizePlan_call P plan defaultTarget =
     (case plan of
        JArr raw \<Rightarrow>
          (case sanitize_loop P defaultTarget (take MAX_PLAN_STEPS raw) of
             Inl e \<Rightarrow> Inl e
           | Inr sanitized \<Rightarrow>
               if sanitized = []
               then Inr [JObj [(''action'', JStr ''REPLY''),
                          (''message'', JStr ''I could not build a safe action plan for this request.'')]]
               else Inr sanitized)
      | _ \<Rightarrow> Inr [JObj [(''action'', JStr ''REPLY''), (''message'', JStr ''Invalid plan format.'')]])"

text \<open>
  A value in which no object has a member named \<open>toString\<close>, at any depth: none of its
  parts throws when it is converted.
\<close>

fun plain :: "jv \<Rightarrow> bool" where
  "plain (JObj kvs) = (map_of kvs ''toString'' = None \<and> (\<forall>kv \<in> set kvs. plain (snd kv)))"
| "plain (JArr xs) = (\<forall>x \<in> set xs. plain x)"
| "plain v = True"

section \<open>Concrete inputs\<close>

text \<open>A platform, and raw plans, on which the theorems below are instantiated.\<close>

definition test_platform :: platform where
  "test_platform = \<lparr>pf_number = (\<lambda>v. NaN),
     pf_string = (\<lambda>v. case v of JNum (Fin q) \<Rightarrow> show_nat (nat \<lfloor>q\<rfloor>) | _ \<Rightarrow> ''[object Object]''),
     pf_url = (\<lambda>s. if s = ''https://example.com'' \<or> s = ''https://example.com/''
                     then Some \<lparr>protocol = ''https:'', hostname = ''example.com'', href = ''https://example.com/''\<rparr>
                     else None)\<rparr>"

definition fallback_reply :: jv where
  "fallback_reply = JObj [(''action'', JStr ''REPLY''),
      (''message'', JStr ''I could not build a safe action plan for this request.'')]"

definition demo_plan :: jv where
  "demo_plan = JArr [JObj [(''action'', JStr '' navigate ''), (''url'', JStr ''https://example.com'')],
     JObj [(''action'', JStr ''LAUNCH_MISSILES'')], JStr ''CLICK'',
     JObj [(''action'', JStr ''wait''), (''ms'', JNum (Fin 5))]]"

text \<open>
  The plan \<^verbatim>\<open>[{"action":"WAIT","ms":{"toString":0}}]\<close>, as a planner can answer it.
\<close>

definition toString_plan :: jv where
  "toString_plan = JArr [JObj [(''action'', JStr ''WAIT''),
                               (''ms'', JObj [(''toString'', JNum (Fin 0))])]]"

definition play_step :: jv where
  "play_step = JObj [(''action'', JStr ''PLAY_MEDIA'')]"



definition nav_step :: "string \<Rightarrow> jv" where
  "nav_step u = JObj [(''action'', JStr ''NAVIGATE''), (''target'', JObj [(''mode'', JStr ''active'')]),
     (''url'', JStr u)]"






definition ready_tab :: tab where
  "ready_tab = \<lparr>tab_id = Some 7, tab_title = ''Example'', tab_url = ''https://example.com/'',
     tab_pendingUrl = [], tab_status = ''complete'', tab_active = True\<rparr>"

definition other_tab :: tab where
  "other_tab = \<lparr>tab_id = Some 8, tab_title = ''Docs'', tab_url = ''https://example.com/docs'',
     tab_pendingUrl = [], tab_status = ''complete'', tab_active = False\<rparr>"

definition ready_now :: ready_env where
  "ready_now = \<lparr>rd_first = Inr ready_tab, rd_polls = [(Map.empty, Inr ready_tab)]\<rparr>"

definition attempt_with :: "reply \<Rightarrow> attempt_env" where
  "attempt_with r = \<lparr>at_seen = Map.empty, at_ready = ready_now, at_inject = None,
     at_seen_mid = Map.empty, at_reply = r\<rparr>"

text \<open>Two attempts meet no listener, the third is answered with a resolution failure.\<close>

definition flaky_env :: "nat \<Rightarrow> attempt_env" where
  "flaky_env k =
     (if k < 3
      then attempt_with (LastError ''Could not establish connection. Receiving end does not exist.'')
      else attempt_with (Replied (JObj [(''status'', JStr ''error''),
             (''error'', JStr ''Could not find element to click (#go).'')])))"

definition silent_env :: "nat \<Rightarrow> attempt_env" where
  "silent_env k = attempt_with TimedOut"

definition obliging_env :: "nat \<Rightarrow> attempt_env" where
  "obliging_env k = attempt_with (Replied (JObj [(''status'', JStr ''success''),
     (''detail'', JStr ''Clicked #go.'')]))"

definition click_plan :: "jv \<Rightarrow> jv" where
  "click_plan target = JObj [(''action'', JStr ''CLICK''), (''target'', target), (''selector'', JStr ''#go'')]"

text \<open>
  A window with two tabs: on the active tab 7 the click fails as in \<open>flaky_env\<close>, on
  tab 8 it succeeds at once.
\<close>

definition demo_chrome :: chrome where
  "demo_chrome = \<lparr>ch_now = 1000, ch_elapsed = 25, ch_window_tabs = [ready_tab, other_tab],
     ch_tabs_get = (\<lambda>n. Inr None),
     ch_tabs_create = (\<lambda>u a. Inl ''Tabs cannot be created right now.''),
     ch_tabs_activate = (\<lambda>n. None),
     ch_wait_polls = [Map.empty, Map.empty],
     ch_tab_env = (\<lambda>t. \<lparr>te_seen = Map.empty, te_update = None, te_ready = ready_now,
        te_attempt = (if tab_id t = Some 7 then flaky_env else obliging_env)\<rparr>)\<rparr>"

definition wait_plan :: jv where
  "wait_plan = JObj [(''action'', JStr ''WAIT''), (''ms'', JNum (Fin 80))]"

definition register_prompt :: string where
  "register_prompt = ''Register on https://example.com with email random and password random''"

text \<open>A clock and a source of chance: \<open>Math.random()\<close> gives 0, 1/12, 2/12, ... in turn.\<close>

definition demo_chance :: chance where
  "demo_chance = \<lparr>ce_now = 1762140123456, ce_random = (\<lambda>i. of_nat (i mod 12) / 12)\<rparr>"

text \<open>A field of a FILL_FORM step as \<open>sanitizeFormField\<close> leaves it.\<close>

definition sanitized_field :: "string \<Rightarrow> string \<Rightarrow> string \<Rightarrow> jv" where
  "sanitized_field name type v = JObj [(''value'', JStr v), (''name'', JStr name), (''label'', JStr name),
     (''type'', JStr type)]"

text \<open>
  A run of the one-step plan \<open>click #go\<close>: the stop is requested while the step is with
  the background worker, so the message settles as aborted and the stop predicate is true
  from the first suspension on.
\<close>

definition go_step :: jv where
  "go_step = JObj [(''action'', JStr ''CLICK''), (''target'', JObj [(''mode'', JStr ''active'')]),
     (''selector'', JStr ''#go'')]"

definition stop_in_flight :: agent_env where
  "stop_in_flight = \<lparr>ae_shouldStop = (\<lambda>t. 1 \<le> t), ae_aborted = (\<lambda>t. 1 \<le> t),
     ae_has_approval_ui = True,
     ae_approval = (\<lambda>t. Inr (JObj [(''approved'', JBool True)])),
     ae_send = (\<lambda>t. AbortedInFlight), ae_delay_polls = (\<lambda>t. 3)\<rparr>"

text \<open>
  The same plan when the worker answers that the element was not found and the stop is
  requested meanwhile: the stop is seen by the check before the recovery.
\<close>

definition stop_before_recovery :: agent_env where
  "stop_before_recovery = \<lparr>ae_shouldStop = (\<lambda>t. 1 \<le> t), ae_aborted = (\<lambda>t. False),
     ae_has_approval_ui = True,
     ae_approval = (\<lambda>t. Inr (JObj [(''approved'', JBool True)])),
     ae_send = (\<lambda>t. Answered (JObj [(''status'', JStr ''error''),
                 (''error'', JStr ''Could not find element to click (#go).'')])),
     ae_delay_polls = (\<lambda>t. 3)\<rparr>"

section \<open>The sanitizer bounds the plan it returns, and can throw\<close>

lemma Number_call_cases:
  "Number_call P v = Inl TypeError \<or> Number_call P v = Inr (js_Number P v)"
  by (simp add: Number_call_def)

lemma String_call_cases:
  "String_call P v = Inl TypeError \<or> String_call P v = Inr (js_String P v)"
  by (simp add: String_call_def)

lemma normalizeTarget_call_cases:
  "normalizeTarget_call P target fallback = Inl TypeError
   \<or> normalizeTarget_call P target fallback = Inr (normalizeTarget P target fallback)"
proof (cases "truthy target \<and> typeof_object target")
  case False
  then show ?thesis
    by (cases target) (simp_all add: normalizeTarget_call_def normalizeTarget_def Let_def)
next
  case True
  define m where "m = (if truthy (jget target ''mode'') then jget target ''mode'' else JStr [])"
  define v where "v = nullish_or (jget target ''value'') (jget target ''tabId'')"
  from True have obj: "(\<exists>kvs. target = JObj kvs) \<or> (\<exists>xs. target = JArr xs)"
    by (cases target) simp_all
  show ?thesis
    using String_call_cases [of P m] Number_call_cases [of P v] obj True
    unfolding normalizeTarget_call_def normalizeTarget_def Let_def m_def [symmetric] v_def [symmetric]
    by (elim disjE exE) simp_all
qed


lemma sanitizeAction_call_cases:
  "sanitizeAction_call P action rawStep = Inl TypeError
   \<or> sanitizeAction_call P action rawStep = Inr (sanitizeAction P action rawStep)"
proof -
  consider "action = ''SWITCH_TAB''" | "action = ''ANALYZE_PAGE''" | "action = ''SCRAPE_PAGE''"
    | "action = ''WAIT''"
    | "action \<noteq> ''SWITCH_TAB'' \<and> action \<noteq> ''ANALYZE_PAGE'' \<and> action \<noteq> ''SCRAPE_PAGE''
       \<and> action \<noteq> ''WAIT''"
    by blast
  then show ?thesis
  proof cases
    case 1
    then show ?thesis
      using Number_call_cases [of P "jget rawStep ''tabId''"]
      by (elim disjE) (simp_all add: sanitizeAction_call_def sanitizeAction_def Let_def)
  next
    case 2
    then show ?thesis
      using Number_call_cases [of P "jget rawStep ''maxTextChars''"]
      by (elim disjE) (simp_all add: sanitizeAction_call_def sanitizeAction_def Let_def)
  next
    case 3
    then show ?thesis
      using Number_call_cases [of P "jget rawStep ''maxChars''"]
      by (elim disjE) (simp_all add: sanitizeAction_call_def sanitizeAction_def Let_def)
  next
    case 4
    then show ?thesis
      using Number_call_cases [of P "jget rawStep ''ms''"]
      by (elim disjE) (simp_all add: sanitizeAction_call_def sanitizeAction_def Let_def)
  next
    case 5
    then show ?thesis by (simp add: sanitizeAction_call_def)
  qed
qed

lemma sanitizeStep_call_cases:
  "sanitizeStep_call P dt rawStep = Inl TypeError
   \<or> sanitizeStep_call P dt rawStep = Inr (sanitizeStep P dt rawStep)"
proof -
  define action where "action = (case jget rawStep ''action'' of
                            JStr a \<Rightarrow> toUpperCase (trim a) | _ \<Rightarrow> [])"
  show ?thesis
    using normalizeTarget_call_cases [of P "jget rawStep ''target''" dt]
      sanitizeAction_call_cases [of P action rawStep]
    unfolding sanitizeStep_call_def sanitizeStep_def Let_def action_def [symmetric]
    by (elim disjE) (simp_all split: option.splits)
qed

lemma sanitize_loop_cases:
  "sanitize_loop P dt raw = Inl TypeError
   \<or> sanitize_loop P dt raw = Inr (List.map_filter (sanitizeStep P dt) raw)"
proof (induction raw)
  case Nil
  show ?case by (simp add: List.map_filter_def)
next
  case (Cons rawStep rest)
  show ?case
    using Cons sanitizeStep_call_cases [of P dt rawStep]
    by (elim disjE) (simp_all add: List.map_filter_def split: option.splits)
qed

lemma sanitizePlan_call_cases:
  "sanitizePlan_call P plan dt = Inl TypeError
   \<or> sanitizePlan_call P plan dt = Inr (sanitizePlan P plan dt)"
proof (cases plan)
  case (JArr raw)
  show ?thesis
    using sanitize_loop_cases [of P dt "take MAX_PLAN_STEPS raw"] JArr
    by (elim disjE) (simp_all add: sanitizePlan_call_def sanitizePlan_def Let_def)
qed (simp_all add: sanitizePlan_call_def sanitizePlan_def)


lemma plain_converts: "plain v \<Longrightarrow> \<not> toPrimitive_throws v"
  by (induction v rule: toPrimitive_throws.induct) auto

lemma plain_jget: "plain v \<Longrightarrow> plain (jget v k)"
proof (cases v)
  case (JObj kvs)
  assume "plain v"
  with JObj show ?thesis
    by (auto split: option.splits dest!: map_of_SomeD)
qed simp_all

lemma plain_Number_call: "plain v \<Longrightarrow> Number_call P v = Inr (js_Number P v)"
  by (simp add: Number_call_def plain_converts)

lemma plain_String_call: "plain v \<Longrightarrow> String_call P v = Inr (js_String P v)"
  by (simp add: String_call_def plain_converts)

lemma plain_normalizeTarget_call:
  assumes "plain target"
  shows "normalizeTarget_call P target fallback = Inr (normalizeTarget P target fallback)"
proof -
  define m where "m = (if truthy (jget target ''mode'') then jget target ''mode'' else JStr [])"
  define v where "v = nullish_or (jget target ''value'') (jget target ''tabId'')"
  have "plain m" "plain v"
    using assms by (simp_all add: m_def v_def nullish_or_def plain_jget)
  then have "String_call P m \<noteq> Inl TypeError" "Number_call P v \<noteq> Inl TypeError"
    by (simp_all add: plain_String_call plain_Number_call)
  moreover have "normalizeTarget_call P target fallback = Inl TypeError
      \<Longrightarrow> String_call P m = Inl TypeError \<or> Number_call P v = Inl TypeError"
    unfolding normalizeTarget_call_def Let_def m_def [symmetric] v_def [symmetric]
    by (auto split: if_splits jv.splits sum.splits)
  ultimately show ?thesis
    using normalizeTarget_call_cases [of P target fallback] by blast
qed

lemma plain_sanitizeAction_call:
  assumes "plain rawStep"
  shows "sanitizeAction_call P action rawStep = Inr (sanitizeAction P action rawStep)"
proof -
  have "sanitizeAction_call P action rawStep \<noteq> Inl TypeError"
    using assms by (simp add: sanitizeAction_call_def plain_Number_call plain_jget)
  then show ?thesis using sanitizeAction_call_cases [of P action rawStep] by blast
qed

lemma plain_sanitizeStep_call:
  assumes "plain rawStep"
  shows "sanitizeStep_call P dt rawStep = Inr (sanitizeStep P dt rawStep)"
proof -
  have "sanitizeStep_call P dt rawStep \<noteq> Inl TypeError"
    using assms
    by (simp add: sanitizeStep_call_def Let_def plain_sanitizeAction_call
        plain_normalizeTarget_call plain_jget split: option.splits)
  then show ?thesis using sanitizeStep_call_cases [of P dt rawStep] by blast
qed

lemma plain_sanitize_loop:
  "\<forall>x \<in> set raw. plain x
     \<Longrightarrow> sanitize_loop P dt raw = Inr (List.map_filter (sanitizeStep P dt) raw)"
  by (induction raw)
     (simp_all add: List.map_filter_def plain_sanitizeStep_call split: option.splits)

lemma plain_sanitizePlan_call:
  assumes "plain plan"
  shows "sanitizePlan_call P plan dt = Inr (sanitizePlan P plan dt)"
proof (cases plan)
  case (JArr raw)
  with assms have "\<forall>x \<in> set (take MAX_PLAN_STEPS raw). plain x"
    by (auto dest: in_set_takeD)
  then show ?thesis
    using JArr by (simp add: sanitizePlan_call_def sanitizePlan_def Let_def plain_sanitize_loop)
qed (simp_all add: sanitizePlan_call_def sanitizePlan_def)

lemma WAIT_upper: "toUpperCase (trim ''WAIT'') = ''WAIT''"
  by code_simp

lemma toString_step_throws:
  "sanitizeStep_call P dt (JObj [(''action'', JStr ''WAIT''),
                                 (''ms'', JObj [(''toString'', JNum (Fin 0))])]) = Inl TypeError"
  by (simp add: sanitizeStep_call_def WAIT_upper ALLOWED_ACTIONS_def TAB_ACTIONS_def
      normalizeTarget_call_def sanitizeAction_call_def Number_call_def)

lemma toString_plan_throws: "sanitizePlan_call P toString_plan dt = Inl TypeError"
  by (simp add: sanitizePlan_call_def toString_plan_def MAX_PLAN_STEPS_def toString_step_throws)


lemma allowed_set:
  "set ALLOWED_ACTIONS = {''REPLY'', ''NAVIGATE'', ''OPEN_TAB'', ''SWITCH_TAB'', ''GOOGLE_SEARCH'',
     ''SEARCH_YOUTUBE'', ''PLAY_MEDIA'', ''CLICK'', ''TYPE'', ''FILL_FORM'', ''ANALYZE_PAGE'',
     ''SCRAPE_PAGE'', ''VISUALIZE_PAGE'', ''WAIT''}"
  unfolding ALLOWED_ACTIONS_def TAB_ACTIONS_def by (simp add: insert_commute)

lemma sanitizeStep_action:
  assumes "sanitizeStep P dt r = Some st"
  shows "action_of st \<in> set ALLOWED_ACTIONS"
  using assms
  by (auto simp: sanitizeStep_def action_of_def Let_def split: if_splits option.splits)

lemma length_map_filter_le: "length (List.map_filter f xs) \<le> length xs"
  by (simp add: List.map_filter_def)

lemma sanitizePlan_length: "length (sanitizePlan P plan dt) \<le> 20"
proof (cases plan)
  case (JArr raw)
  have "length (List.map_filter (sanitizeStep P dt) (take 20 raw)) \<le> length (take 20 raw)"
    by (rule length_map_filter_le)
  then show ?thesis using JArr by (simp add: sanitizePlan_def MAX_PLAN_STEPS_def Let_def)
qed (simp_all add: sanitizePlan_def)

lemma sanitizePlan_nonempty: "sanitizePlan P plan dt \<noteq> []"
  by (cases plan) (simp_all add: sanitizePlan_def Let_def)

lemma sanitizePlan_actions:
  assumes "step \<in> set (sanitizePlan P plan dt)"
  shows "action_of step \<in> set ALLOWED_ACTIONS"
proof (cases plan)
  case (JArr raw)
  show ?thesis
  proof (cases "List.map_filter (sanitizeStep P dt) (take MAX_PLAN_STEPS raw) = []")
    case True
    with assms JArr show ?thesis
      by (simp add: sanitizePlan_def action_of_def ALLOWED_ACTIONS_def)
  next
    case False
    with assms JArr have "step \<in> set (List.map_filter (sanitizeStep P dt) (take MAX_PLAN_STEPS raw))"
      by (simp add: sanitizePlan_def)
    then obtain r where "sanitizeStep P dt r = Some step"
      by (auto simp: List.map_filter_def)
    then show ?thesis by (rule sanitizeStep_action)
  qed
next
qed (use assms in \<open>simp_all add: sanitizePlan_def action_of_def ALLOWED_ACTIONS_def\<close>)

lemma sanitizePlan_call_returned:
  assumes "sanitizePlan_call P plan dt = Inr steps"
  shows "steps = sanitizePlan P plan dt"
  using assms sanitizePlan_call_cases [of P plan dt] by auto

text \<open>
  Claim C1. The sanitizer does not return for every raw plan. The planner's answer
  \<^verbatim>\<open>[{"action":"WAIT","ms":{"toString":0}}]\<close> makes \<open>Number(rawStep.ms)\<close> throw a
  \<open>TypeError\<close>, which nothing in the sanitizer catches (\<open>sanitizeUrl\<close> does catch
  what \<open>new URL\<close> throws and drops the step), so no plan comes back. The rest
  of the claim holds of every call that returns: the plan has at most 20 steps, is never
  empty, and every step's action is one of the fourteen allowed actions; when no raw step
  survives, the plan is the single synthesized REPLY step, and a plan that is no array gives
  the single REPLY step \<open>Invalid plan format.\<close> The call returns whenever no object of
  the raw plan has a member named \<open>toString\<close>.
\<close>

theorem sanitizePlan_call_safe:
  "sanitizePlan_call P toString_plan dt = Inl TypeError
   \<and> (\<forall>steps. sanitizePlan_call P plan dt = Inr steps
        \<longrightarrow> length steps \<le> 20 \<and> steps \<noteq> []
            \<and> (\<forall>step \<in> set steps.
                  action_of step \<in> {''REPLY'', ''NAVIGATE'', ''OPEN_TAB'', ''SWITCH_TAB'',
                    ''GOOGLE_SEARCH'', ''SEARCH_YOUTUBE'', ''PLAY_MEDIA'', ''CLICK'', ''TYPE'',
                    ''FILL_FORM'', ''ANALYZE_PAGE'', ''SCRAPE_PAGE'', ''VISUALIZE_PAGE'', ''WAIT''}))
   \<and> (plain plan \<longrightarrow> (\<exists>steps. sanitizePlan_call P plan dt = Inr steps))
   \<and> (\<forall>raw. plan = JArr raw \<and> sanitize_loop P dt (take 20 raw) = Inr []
        \<longrightarrow> sanitizePlan_call P plan dt = Inr [fallback_reply])
   \<and> ((\<forall>raw. plan \<noteq> JArr raw)
        \<longrightarrow> sanitizePlan_call P plan dt
            = Inr [JObj [(''action'', JStr ''REPLY''), (''message'', JStr ''Invalid plan format.'')]])"
proof -
  have a: "\<forall>steps. sanitizePlan_call P plan dt = Inr steps
        \<longrightarrow> length steps \<le> 20 \<and> steps \<noteq> []
            \<and> (\<forall>step \<in> set steps.
                  action_of step \<in> {''REPLY'', ''NAVIGATE'', ''OPEN_TAB'', ''SWITCH_TAB'',
                    ''GOOGLE_SEARCH'', ''SEARCH_YOUTUBE'', ''PLAY_MEDIA'', ''CLICK'', ''TYPE'',
                    ''FILL_FORM'', ''ANALYZE_PAGE'', ''SCRAPE_PAGE'', ''VISUALIZE_PAGE'', ''WAIT''})"
  proof (intro allI impI)
    fix steps
    assume "sanitizePlan_call P plan dt = Inr steps"
    then have s: "steps = sanitizePlan P plan dt" by (rule sanitizePlan_call_returned)
    have "\<forall>step \<in> set steps. action_of step \<in> set ALLOWED_ACTIONS"
      unfolding s using sanitizePlan_actions [of _ P plan dt] by blast
    then show "length steps \<le> 20 \<and> steps \<noteq> []
            \<and> (\<forall>step \<in> set steps.
                  action_of step \<in> {''REPLY'', ''NAVIGATE'', ''OPEN_TAB'', ''SWITCH_TAB'',
                    ''GOOGLE_SEARCH'', ''SEARCH_YOUTUBE'', ''PLAY_MEDIA'', ''CLICK'', ''TYPE'',
                    ''FILL_FORM'', ''ANALYZE_PAGE'', ''SCRAPE_PAGE'', ''VISUALIZE_PAGE'', ''WAIT''})"
      unfolding allowed_set
      using sanitizePlan_length [of P plan dt] sanitizePlan_nonempty [of P plan dt]
      by (simp only: s simp_thms)
  qed
  have b: "plain plan \<longrightarrow> (\<exists>steps. sanitizePlan_call P plan dt = Inr steps)"
    by (simp add: plain_sanitizePlan_call)
  have c: "\<forall>raw. plan = JArr raw \<and> sanitize_loop P dt (take 20 raw) = Inr []
        \<longrightarrow> sanitizePlan_call P plan dt = Inr [fallback_reply]"
    by (simp add: sanitizePlan_call_def MAX_PLAN_STEPS_def fallback_reply_def)
  have d: "(\<forall>raw. plan \<noteq> JArr raw)
        \<longrightarrow> sanitizePlan_call P plan dt
            = Inr [JObj [(''action'', JStr ''REPLY''), (''message'', JStr ''Invalid plan format.'')]]"
    by (cases plan) (simp_all add: sanitizePlan_call_def)
  have t: "sanitizePlan_call P toString_plan dt = Inl TypeError"
    by (rule toString_plan_throws)
  show ?thesis by (intro conjI) (rule t a b c d)+
qed


lemma demo_plan_sanitized:
  "sanitizePlan test_platform demo_plan JUndef =
    [JObj [(''action'', JStr ''NAVIGATE''), (''target'', JObj [(''mode'', JStr ''active'')]),
           (''url'', JStr ''https://example.com/'')],
     JObj [(''action'', JStr ''WAIT''), (''target'', JObj [(''mode'', JStr ''active'')]),
           (''ms'', JNum (Fin 80))]]"
  by code_simp

lemma demo_plan_plain: "plain demo_plan"
  by (simp add: demo_plan_def)

lemma toString_plan_not_plain: "\<not> plain toString_plan"
  by (simp add: toString_plan_def)

text \<open>
  Four raw plans: one with a misspelt action, an unknown action and an entry that is no
  object, which returns its two valid steps; one whose only entry is \<open>null\<close>; one that
  is no array; and the plan that throws.
\<close>

theorem sanitizePlan_call_safe_witness:
  "plain demo_plan
   \<and> sanitizePlan_call test_platform demo_plan JUndef
       = Inr [JObj [(''action'', JStr ''NAVIGATE''), (''target'', JObj [(''mode'', JStr ''active'')]),
                    (''url'', JStr ''https://example.com/'')],
              JObj [(''action'', JStr ''WAIT''), (''target'', JObj [(''mode'', JStr ''active'')]),
                    (''ms'', JNum (Fin 80))]]
   \<and> (\<exists>steps. sanitizePlan_call test_platform demo_plan JUndef = Inr steps
         \<and> length steps = 2 \<and> length steps \<le> 20
         \<and> map action_of steps = [''NAVIGATE'', ''WAIT''])
   \<and> sanitizePlan_call test_platform (JArr [JNull]) JUndef = Inr [fallback_reply]
   \<and> sanitizePlan_call test_platform (JStr ''x'') JUndef
       = Inr [JObj [(''action'', JStr ''REPLY''), (''message'', JStr ''Invalid plan format.'')]]
   \<and> \<not> plain toString_plan
   \<and> sanitizePlan_call test_platform toString_plan JUndef = Inl TypeError"
proof -
  have r: "sanitizePlan_call test_platform demo_plan JUndef
       = Inr [JObj [(''action'', JStr ''NAVIGATE''), (''target'', JObj [(''mode'', JStr ''active'')]),
                    (''url'', JStr ''https://example.com/'')],
              JObj [(''action'', JStr ''WAIT''), (''target'', JObj [(''mode'', JStr ''active'')]),
                    (''ms'', JNum (Fin 80))]]"
  proof -
    obtain steps where st: "sanitizePlan_call test_platform demo_plan JUndef = Inr steps"
      using sanitizePlan_call_safe [of test_platform JUndef demo_plan] demo_plan_plain by blast
    then have "steps = sanitizePlan test_platform demo_plan JUndef"
      by (rule sanitizePlan_call_returned)
    then show ?thesis using st by (simp only: demo_plan_sanitized)
  qed
  have l: "\<exists>steps. sanitizePlan_call test_platform demo_plan JUndef = Inr steps
         \<and> length steps = 2 \<and> length steps \<le> 20
         \<and> map action_of steps = [''NAVIGATE'', ''WAIT'']"
    unfolding r by (simp add: action_of_def)
  have e: "sanitize_loop test_platform JUndef (take 20 [JNull]) = Inr []"
    by (simp add: sanitizeStep_call_def)
  have f: "sanitizePlan_call test_platform (JArr [JNull]) JUndef = Inr [fallback_reply]"
    using sanitizePlan_call_safe [of test_platform JUndef "JArr [JNull]"] e by blast
  have n: "\<forall>raw. JStr ''x'' \<noteq> JArr raw" by simp
  have i: "sanitizePlan_call test_platform (JStr ''x'') JUndef
       = Inr [JObj [(''action'', JStr ''REPLY''), (''message'', JStr ''Invalid plan format.'')]]"
    using sanitizePlan_call_safe [of test_platform JUndef "JStr ''x''"] n by blast
  have t: "sanitizePlan_call test_platform toString_plan JUndef = Inl TypeError"
    using sanitizePlan_call_safe [of test_platform JUndef JNull] by blast
  show ?thesis
    by (intro conjI) (rule demo_plan_plain r l f i toString_plan_not_plain t)+
qed

subsection \<open>Only the first twenty entries count\<close>

lemma map_filter_replicate_None:
  "f x = None \<Longrightarrow> List.map_filter f (replicate n x) = []"
  by (simp add: List.map_filter_def)

lemma sanitizeStep_JNull: "sanitizeStep P dt JNull = None"
  by (simp add: sanitizeStep_def)

lemma sanitizeStep_play:
  "sanitizeStep P dt play_step
     = Some (JObj [(''action'', JStr ''PLAY_MEDIA''), (''target'', normalizeTarget P JUndef dt)])"
  by (simp add: sanitizeStep_def play_step_def sanitizeAction_def ALLOWED_ACTIONS_def TAB_ACTIONS_def
      trim_def toUpperCase_def upper_char_def lower_tab_def latin1_upper_def latin1_lower_def
      is_ws_def)

text \<open>
  Claim C10. Only the first 20 raw entries are looked at: the plan sanitized from a raw
  array is the plan sanitized from its first 20 entries, whatever follows them. So twenty
  invalid entries followed by a valid one give the single fallback step, fewer than 20
  steps, although the entry at index 20 is valid on its own.
\<close>

theorem sanitizePlan_first_20_only:
  "sanitizePlan P (JArr raw) dt = sanitizePlan P (JArr (take 20 raw)) dt
   \<and> (length front = 20
        \<longrightarrow> sanitizePlan P (JArr (front @ later)) dt = sanitizePlan P (JArr front) dt)
   \<and> sanitizeStep P dt play_step \<noteq> None
   \<and> sanitizePlan P (JArr (replicate 20 JNull @ [play_step])) dt = [fallback_reply]"
proof -
  have t: "sanitizePlan P (JArr xs) dt = sanitizePlan P (JArr (take 20 xs)) dt" for xs
    by (simp add: sanitizePlan_def MAX_PLAN_STEPS_def)
  have f: "sanitizePlan P (JArr (replicate 20 JNull @ [play_step])) dt = [fallback_reply]"
    by (simp add: sanitizePlan_def MAX_PLAN_STEPS_def map_filter_replicate_None
        sanitizeStep_JNull fallback_reply_def)
  have a: "length front = 20
      \<Longrightarrow> sanitizePlan P (JArr (front @ later)) dt = sanitizePlan P (JArr front) dt"
    using t [of "front @ later"] by simp
  show ?thesis using t f a by (simp add: sanitizeStep_play)
qed

theorem sanitizePlan_first_20_only_witness:
  "length (replicate 20 JNull :: jv list) = 20
   \<and> sanitizePlan test_platform (JArr (replicate 20 JNull @ [play_step, play_step])) JUndef
       = sanitizePlan test_platform (JArr (replicate 20 JNull)) JUndef
   \<and> sanitizePlan test_platform (JArr (replicate 20 JNull @ [play_step])) JUndef = [fallback_reply]"
  using sanitizePlan_first_20_only [of test_platform "[]" JUndef "replicate 20 JNull"
      "[play_step, play_step]"]
  by simp

section \<open>The text limit of ANALYZE_PAGE\<close>









section \<open>Risk of navigation steps\<close>

text \<open>
  Claim C5. For a NAVIGATE or OPEN_TAB step the level is high exactly when the host of the
  step's URL and the last-known host are both non-empty and differ; otherwise it is medium,
  in particular when no host is known yet (the empty string, as at the first step of a run).
\<close>

theorem navigation_risk:
  assumes "action_of step = ''NAVIGATE'' \<or> action_of step = ''OPEN_TAB''"
  shows "(level (classifyStepRisk P step prompt currentHost) = High
           \<longleftrightarrow> getHostFromStep P step \<noteq> [] \<and> currentHost \<noteq> []
               \<and> getHostFromStep P step \<noteq> currentHost)
         \<and> (level (classifyStepRisk P step prompt currentHost) \<noteq> High
           \<longrightarrow> level (classifyStepRisk P step prompt currentHost) = Medium)
         \<and> level (classifyStepRisk P step prompt []) = Medium"
  using assms by (auto simp: classifyStepRisk_def Let_def LOW_RISK_ACTIONS_def)

lemma host_example: "getHostFromStep test_platform (nav_step ''https://example.com'') = ''example.com''"
  by code_simp

theorem navigation_risk_witness:
  "action_of (nav_step ''https://example.com'') = ''NAVIGATE''
   \<and> level (classifyStepRisk test_platform (nav_step ''https://example.com'') ''open it'' ''github.com'') = High
   \<and> level (classifyStepRisk test_platform (nav_step ''https://example.com'') ''open it'' ''example.com'') = Medium
   \<and> level (classifyStepRisk test_platform (nav_step ''https://example.com'') ''open it'' []) = Medium"
proof -
  have a: "action_of (nav_step ''https://example.com'') = ''NAVIGATE''"
    by (simp add: nav_step_def action_of_def)
  show ?thesis
    using navigation_risk [of "nav_step ''https://example.com''" test_platform "''open it''" "''github.com''"]
      navigation_risk [of "nav_step ''https://example.com''" test_platform "''open it''" "''example.com''"]
      a
    by (simp add: host_example)
qed

section \<open>The element resolver picks the first best candidate\<close>











section \<open>Retries of a content action\<close>

lemma content_loop_bounds:
  "cr_attempts (content_loop P env tabId plan runId a le) \<le> maxAttempts + 1 - a
   \<and> length (cr_delays (content_loop P env tabId plan runId a le))
       \<le> cr_attempts (content_loop P env tabId plan runId a le)
   \<and> length (cr_delays (content_loop P env tabId plan runId a le)) \<le> maxAttempts - a
   \<and> set (cr_delays (content_loop P env tabId plan runId a le)) \<subseteq> {180}"
proof (induction P env tabId plan runId a le rule: content_loop.induct)
  case (1 P env tabId plan runId attempt lastError)
  show ?case
  proof (cases "attempt \<le> maxAttempts")
    case False
    then show ?thesis by (simp add: content_loop.simps [of _ _ _ _ _ attempt])
  next
    case le: True
    show ?thesis
    proof (cases "throwIfCanceled (at_seen (env attempt)) runId")
      case (Some m)
      with le show ?thesis by (simp add: content_loop.simps [of _ _ _ _ _ attempt])
    next
      case None
      show ?thesis
      proof (cases "content_attempt P (env attempt) tabId plan runId")
        case (Inr res)
        with le None show ?thesis by (simp add: content_loop.simps [of _ _ _ _ _ attempt])
      next
        case (Inl e)
        show ?thesis
        proof (cases "\<not> isRetryableContentError e \<or> attempt = maxAttempts")
          case True
          with le None Inl show ?thesis
            by (auto simp add: content_loop.simps [of _ _ _ _ _ attempt])
        next
          case False
          with le None Inl "1.IH" [OF le None Inl False]
          show ?thesis
            by (auto simp add: content_loop.simps [of _ _ _ _ _ attempt] Let_def)
        qed
      qed
    qed
  qed
qed

text \<open>Every back-off follows an attempt that failed with a retryable message.\<close>

lemma content_loop_retries:
  assumes "k < length (cr_delays (content_loop P env tabId plan runId a le))"
  shows "a + k < maxAttempts
         \<and> (\<exists>e. content_attempt P (env (a + k)) tabId plan runId = Inl e \<and> isRetryableContentError e)"
  using assms
proof (induction P env tabId plan runId a le arbitrary: k rule: content_loop.induct)
  case (1 P env tabId plan runId attempt lastError)
  from "1.prems" have le: "attempt \<le> maxAttempts"
    by (cases "attempt \<le> maxAttempts") (simp_all add: content_loop.simps [of _ _ _ _ _ attempt])
  from "1.prems" le have None: "throwIfCanceled (at_seen (env attempt)) runId = None"
    by (cases "throwIfCanceled (at_seen (env attempt)) runId")
      (simp_all add: content_loop.simps [of _ _ _ _ _ attempt])
  from "1.prems" le None obtain e where Inl: "content_attempt P (env attempt) tabId plan runId = Inl e"
    by (cases "content_attempt P (env attempt) tabId plan runId")
      (simp_all add: content_loop.simps [of _ _ _ _ _ attempt])
  from "1.prems" le None Inl have F: "\<not> (\<not> isRetryableContentError e \<or> attempt = maxAttempts)"
    by (cases "\<not> isRetryableContentError e \<or> attempt = maxAttempts")
      (simp_all add: content_loop.simps [of _ _ _ _ _ attempt])
  show ?case
  proof (cases k)
    case 0
    with le F Inl show ?thesis by auto
  next
    case (Suc j)
    with "1.prems" le None Inl F
    have "j < length (cr_delays (content_loop P env tabId plan runId (attempt + 1) (Some e)))"
      by (simp add: content_loop.simps [of _ _ _ _ _ attempt] Let_def)
    from "1.IH" [OF le None Inl F this] Suc show ?thesis by simp
  qed
qed


text \<open>A failure that is not retryable, or the failure of the last attempt, ends the loop.\<close>

lemma content_loop_surfaces:
  assumes "k < cr_attempts (content_loop P env tabId plan runId a le)"
    and "content_attempt P (env (a + k)) tabId plan runId = Inl e"
    and "\<not> isRetryableContentError e \<or> a + k = maxAttempts"
  shows "cr_outcome (content_loop P env tabId plan runId a le) = Inl e
         \<and> cr_attempts (content_loop P env tabId plan runId a le) = k + 1
         \<and> length (cr_delays (content_loop P env tabId plan runId a le)) = k"
  using assms
proof (induction P env tabId plan runId a le arbitrary: k rule: content_loop.induct)
  case (1 P env tabId plan runId attempt lastError)
  from "1.prems"(1) have le: "attempt \<le> maxAttempts"
    by (cases "attempt \<le> maxAttempts") (simp_all add: content_loop.simps [of _ _ _ _ _ attempt])
  from "1.prems"(1) le have None: "throwIfCanceled (at_seen (env attempt)) runId = None"
    by (cases "throwIfCanceled (at_seen (env attempt)) runId")
      (simp_all add: content_loop.simps [of _ _ _ _ _ attempt])
  show ?case
  proof (cases k)
    case 0
    with "1.prems" le None show ?thesis
      by (auto simp add: content_loop.simps [of _ _ _ _ _ attempt])
  next
    case (Suc j)
    from "1.prems"(1) le None Suc obtain e0
      where Inl: "content_attempt P (env attempt) tabId plan runId = Inl e0"
      by (cases "content_attempt P (env attempt) tabId plan runId")
        (simp_all add: content_loop.simps [of _ _ _ _ _ attempt])
    from "1.prems"(1) le None Inl Suc
    have F: "\<not> (\<not> isRetryableContentError e0 \<or> attempt = maxAttempts)"
      by (cases "\<not> isRetryableContentError e0 \<or> attempt = maxAttempts")
        (simp_all add: content_loop.simps [of _ _ _ _ _ attempt])
    from "1.prems" le None Inl F Suc
    have p: "j < cr_attempts (content_loop P env tabId plan runId (attempt + 1) (Some e0))"
      "content_attempt P (env (attempt + 1 + j)) tabId plan runId = Inl e"
      "\<not> isRetryableContentError e \<or> attempt + 1 + j = maxAttempts"
      by (simp_all add: content_loop.simps [of _ _ _ _ _ attempt] Let_def)
    from "1.IH" [OF le None Inl F p] le None Inl F Suc show ?thesis
      by (simp add: content_loop.simps [of _ _ _ _ _ attempt] Let_def)
  qed
qed

lemma content_loop_succeeds:
  assumes "k < cr_attempts (content_loop P env tabId plan runId a le)"
    and "content_attempt P (env (a + k)) tabId plan runId = Inr res"
  shows "cr_outcome (content_loop P env tabId plan runId a le) = Inr res
         \<and> cr_attempts (content_loop P env tabId plan runId a le) = k + 1
         \<and> length (cr_delays (content_loop P env tabId plan runId a le)) = k"
  using assms
proof (induction P env tabId plan runId a le arbitrary: k rule: content_loop.induct)
  case (1 P env tabId plan runId attempt lastError)
  from "1.prems"(1) have le: "attempt \<le> maxAttempts"
    by (cases "attempt \<le> maxAttempts") (simp_all add: content_loop.simps [of _ _ _ _ _ attempt])
  from "1.prems"(1) le have None: "throwIfCanceled (at_seen (env attempt)) runId = None"
    by (cases "throwIfCanceled (at_seen (env attempt)) runId")
      (simp_all add: content_loop.simps [of _ _ _ _ _ attempt])
  show ?case
  proof (cases k)
    case 0
    with "1.prems" le None show ?thesis
      by (auto simp add: content_loop.simps [of _ _ _ _ _ attempt])
  next
    case (Suc j)
    from "1.prems"(1) le None Suc obtain e0
      where Inl: "content_attempt P (env attempt) tabId plan runId = Inl e0"
      by (cases "content_attempt P (env attempt) tabId plan runId")
        (simp_all add: content_loop.simps [of _ _ _ _ _ attempt])
    from "1.prems"(1) le None Inl Suc
    have F: "\<not> (\<not> isRetryableContentError e0 \<or> attempt = maxAttempts)"
      by (cases "\<not> isRetryableContentError e0 \<or> attempt = maxAttempts")
        (simp_all add: content_loop.simps [of _ _ _ _ _ attempt])
    from "1.prems" le None Inl F Suc
    have p: "j < cr_attempts (content_loop P env tabId plan runId (attempt + 1) (Some e0))"
      "content_attempt P (env (attempt + 1 + j)) tabId plan runId = Inr res"
      by (simp_all add: content_loop.simps [of _ _ _ _ _ attempt] Let_def)
    from "1.IH" [OF le None Inl F p] le None Inl F Suc show ?thesis
      by (simp add: content_loop.simps [of _ _ _ _ _ attempt] Let_def)
  qed
qed

text \<open>
  Claim C7. A content action runs the round trip at most 8 times. Every back-off is 180 ms
  and follows an attempt that failed with a message \<open>isRetryableContentError\<close> accepts,
  before the eighth attempt; a failure with any other message, and the failure of the
  eighth attempt, is the outcome of the action at once, with no further attempt or back-off.
  The retryable messages are those containing one of six phrases: the receiving end is
  missing, the frame shows an error page, the page cannot be accessed or is internal to
  the browser (two phrases), a permission is missing, the message timed out.
\<close>

theorem runContentAction_retries:
  "cr_attempts (runContentAction P env tabId plan runId) \<le> 8
   \<and> length (cr_delays (runContentAction P env tabId plan runId))
       \<le> cr_attempts (runContentAction P env tabId plan runId)
   \<and> length (cr_delays (runContentAction P env tabId plan runId)) \<le> 7
   \<and> (\<forall>d \<in> set (cr_delays (runContentAction P env tabId plan runId)). d = 180)
   \<and> (\<forall>k < length (cr_delays (runContentAction P env tabId plan runId)).
        k + 1 < 8
        \<and> (\<exists>e. content_attempt P (env (k + 1)) tabId plan runId = Inl e
                 \<and> isRetryableContentError e))
   \<and> (\<forall>k e. k < cr_attempts (runContentAction P env tabId plan runId)
        \<and> content_attempt P (env (k + 1)) tabId plan runId = Inl e
        \<and> (\<not> isRetryableContentError e \<or> k + 1 = 8)
        \<longrightarrow> cr_outcome (runContentAction P env tabId plan runId) = Inl e
            \<and> cr_attempts (runContentAction P env tabId plan runId) = k + 1
            \<and> length (cr_delays (runContentAction P env tabId plan runId)) = k)
   \<and> (\<forall>m. isRetryableContentError m
        \<longleftrightarrow> (\<exists>p \<in> set [''receiving end does not exist'',
                          ''frame with id 0 is showing error page'',
                          ''cannot access contents of the page'',
                          ''must request permission'',
                          ''timed out waiting for tab'',
                          ''cannot automate browser-internal pages''].
               str_includes (toLowerCase m) p))"
proof -
  let ?run = "content_loop P env tabId plan runId 1 None"
  have b: "cr_attempts ?run \<le> 8" "length (cr_delays ?run) \<le> cr_attempts ?run"
    "length (cr_delays ?run) \<le> 7" "\<forall>d \<in> set (cr_delays ?run). d = 180"
    using content_loop_bounds [of P env tabId plan runId 1 None]
    by (auto simp: maxAttempts_def)
  have r: "\<forall>k < length (cr_delays ?run). k + 1 < 8
        \<and> (\<exists>e. content_attempt P (env (k + 1)) tabId plan runId = Inl e \<and> isRetryableContentError e)"
    using content_loop_retries [of _ P env tabId plan runId 1 None]
    by (auto simp: maxAttempts_def add.commute)
  have s: "\<forall>k e. k < cr_attempts ?run
        \<and> content_attempt P (env (k + 1)) tabId plan runId = Inl e
        \<and> (\<not> isRetryableContentError e \<or> k + 1 = 8)
        \<longrightarrow> cr_outcome ?run = Inl e \<and> cr_attempts ?run = k + 1 \<and> length (cr_delays ?run) = k"
    using content_loop_surfaces [of _ P env tabId plan runId 1 None]
    by (auto simp: maxAttempts_def add.commute)
  have c: "\<forall>m. isRetryableContentError m
        \<longleftrightarrow> (\<exists>p \<in> set [''receiving end does not exist'',
                          ''frame with id 0 is showing error page'',
                          ''cannot access contents of the page'',
                          ''must request permission'',
                          ''timed out waiting for tab'',
                          ''cannot automate browser-internal pages''].
               str_includes (toLowerCase m) p)"
    by (simp add: isRetryableContentError_def Let_def)
  from b r s c show ?thesis unfolding runContentAction_def by blast
qed

lemma silent_attempt:
  "content_attempt test_platform (silent_env k) 7 (click_plan tg) ''run-1''
     = Inl ''Timed out waiting for tab 7.''"
  unfolding silent_env_def by code_simp

lemma silent_seen: "throwIfCanceled (at_seen (silent_env k)) ''run-1'' = None"
  by (simp add: silent_env_def attempt_with_def throwIfCanceled_def)

lemma timed_out_retryable: "isRetryableContentError ''Timed out waiting for tab 7.''"
  by code_simp

lemma silent_run:
  "runContentAction test_platform silent_env 7 (click_plan tg) ''run-1''
    = \<lparr>cr_outcome = Inl ''Timed out waiting for tab 7.'', cr_attempts = 8,
       cr_delays = [180, 180, 180, 180, 180, 180, 180]\<rparr>"
  unfolding runContentAction_def
  by (simp add: content_loop.simps [of _ silent_env] silent_attempt silent_seen timed_out_retryable
      maxAttempts_def)

lemma flaky_attempt:
  "content_attempt test_platform (flaky_env k) 7 (click_plan tg) ''run-1''
     = (if k < 3 then Inl ''Could not establish connection. Receiving end does not exist.''
        else Inl ''Could not find element to click (#go).'')"
proof (cases "k < 3")
  case True
  have "content_attempt test_platform
          (attempt_with (LastError ''Could not establish connection. Receiving end does not exist.''))
          7 (click_plan tg) ''run-1''
        = Inl ''Could not establish connection. Receiving end does not exist.''"
    by code_simp
  with True show ?thesis by (simp add: flaky_env_def)
next
  case False
  have "content_attempt test_platform
          (attempt_with (Replied (JObj [(''status'', JStr ''error''),
             (''error'', JStr ''Could not find element to click (#go).'')])))
          7 (click_plan tg) ''run-1''
        = Inl ''Could not find element to click (#go).''"
    by code_simp
  with False show ?thesis by (simp add: flaky_env_def)
qed

lemma flaky_seen: "throwIfCanceled (at_seen (flaky_env k)) ''run-1'' = None"
  by (simp add: flaky_env_def attempt_with_def throwIfCanceled_def)

lemma flaky_messages:
  "isRetryableContentError ''Could not establish connection. Receiving end does not exist.''"
  "\<not> isRetryableContentError ''Could not find element to click (#go).''"
  by code_simp+

lemma flaky_run:
  "runContentAction test_platform flaky_env 7 (click_plan tg) ''run-1''
    = \<lparr>cr_outcome = Inl ''Could not find element to click (#go).'', cr_attempts = 3,
       cr_delays = [180, 180]\<rparr>"
  unfolding runContentAction_def
  by (simp add: content_loop.simps [of _ flaky_env] flaky_attempt flaky_seen flaky_messages
      maxAttempts_def)

theorem runContentAction_retries_witness:
  "cr_attempts (runContentAction test_platform flaky_env 7 (click_plan JUndef) ''run-1'') = 3
   \<and> cr_delays (runContentAction test_platform flaky_env 7 (click_plan JUndef) ''run-1'') = [180, 180]
   \<and> content_attempt test_platform (flaky_env 3) 7 (click_plan JUndef) ''run-1''
       = Inl ''Could not find element to click (#go).''
   \<and> \<not> isRetryableContentError ''Could not find element to click (#go).''
   \<and> cr_outcome (runContentAction test_platform flaky_env 7 (click_plan JUndef) ''run-1'')
       = Inl ''Could not find element to click (#go).''
   \<and> cr_attempts (runContentAction test_platform silent_env 7 (click_plan JUndef) ''run-1'') = 8
   \<and> isRetryableContentError ''Timed out waiting for tab 7.''
   \<and> cr_outcome (runContentAction test_platform silent_env 7 (click_plan JUndef) ''run-1'')
       = Inl ''Timed out waiting for tab 7.''
   \<and> length (cr_delays (runContentAction test_platform silent_env 7 (click_plan JUndef) ''run-1'')) = 7"
proof -
  let ?f = "runContentAction test_platform flaky_env 7 (click_plan JUndef) ''run-1''"
  let ?s = "runContentAction test_platform silent_env 7 (click_plan JUndef) ''run-1''"
  have f: "\<forall>k e. k < cr_attempts ?f
        \<and> content_attempt test_platform (flaky_env (k + 1)) 7 (click_plan JUndef) ''run-1'' = Inl e
        \<and> (\<not> isRetryableContentError e \<or> k + 1 = 8)
        \<longrightarrow> cr_outcome ?f = Inl e \<and> cr_attempts ?f = k + 1 \<and> length (cr_delays ?f) = k"
    using runContentAction_retries [of test_platform flaky_env 7 "click_plan JUndef" "''run-1''"]
    by blast
  have s: "\<forall>k e. k < cr_attempts ?s
        \<and> content_attempt test_platform (silent_env (k + 1)) 7 (click_plan JUndef) ''run-1'' = Inl e
        \<and> (\<not> isRetryableContentError e \<or> k + 1 = 8)
        \<longrightarrow> cr_outcome ?s = Inl e \<and> cr_attempts ?s = k + 1 \<and> length (cr_delays ?s) = k"
    using runContentAction_retries [of test_platform silent_env 7 "click_plan JUndef" "''run-1''"]
    by blast
  have f3: "cr_outcome ?f = Inl ''Could not find element to click (#go).''
      \<and> cr_attempts ?f = 2 + 1 \<and> length (cr_delays ?f) = 2"
    using f [rule_format, of 2 "''Could not find element to click (#go).''"]
    by (simp add: flaky_run flaky_attempt flaky_messages)
  have s8: "cr_outcome ?s = Inl ''Timed out waiting for tab 7.''
      \<and> cr_attempts ?s = 7 + 1 \<and> length (cr_delays ?s) = 7"
    using s [rule_format, of 7 "''Timed out waiting for tab 7.''"]
    by (simp add: silent_run silent_attempt)
  from f3 s8 show ?thesis
    by (simp add: flaky_run flaky_attempt flaky_messages timed_out_retryable)
qed

section \<open>Dispatch to the resolved tabs\<close>

lemma executeActionOnTab_status:
  "r_status (executeActionOnTab P te t plan runId) = ''success''
   \<or> r_status (executeActionOnTab P te t plan runId) = ''error''"
  by (simp add: executeActionOnTab_def split: sum.splits option.splits)

lemma find_first_index:
  assumes "i < length xs" and "Q (xs ! i)" and "\<forall>j < i. \<not> Q (xs ! j)"
  shows "find Q xs = Some (xs ! i)"
  using assms
proof (induction xs arbitrary: i)
  case Nil
  then show ?case by simp
next
  case (Cons x xs)
  show ?case
  proof (cases i)
    case 0
    with Cons.prems show ?thesis by simp
  next
    case (Suc k)
    with Cons.prems have "\<not> Q x" by auto
    moreover from Cons.prems Suc have "find Q xs = Some (xs ! k)"
      by (intro Cons.IH) auto
    ultimately show ?thesis using Suc by simp
  qed
qed

text \<open>
  Claim C2. When the target of a step resolves to \<open>N \<ge> 1\<close> tabs, the dispatch returns
  a response with exactly one result per tab, in tab order; its status is success exactly
  when some per-tab result is a success; when none is, the status is error, all results
  are still returned, and the error is the message of the first per-tab result whose
  message is not empty (\<open>result.error\<close> is tested for truth).
\<close>

theorem dispatch_results:
  assumes "resolveTargetTabs P ch (jget plan ''target'') = Inr tabs" and "tabs \<noteq> []"
  shows "\<exists>resp. dispatch_to_tabs P ch plan runId = Inr resp
     \<and> length (b_results resp) = length tabs
     \<and> b_results resp = map (\<lambda>t. executeActionOnTab P (ch_tab_env ch t) t plan runId) tabs
     \<and> (b_status resp = ''success'' \<longleftrightarrow> (\<exists>r \<in> set (b_results resp). r_status r = ''success''))
     \<and> ((\<forall>r \<in> set (b_results resp). r_status r \<noteq> ''success'')
          \<longrightarrow> b_status resp = ''error''
              \<and> (\<forall>i e. i < length (b_results resp) \<and> r_error (b_results resp ! i) = Some e \<and> e \<noteq> []
                      \<and> (\<forall>j < i. r_error (b_results resp ! j) = Some [])
                    \<longrightarrow> b_error resp = Some e))"
proof -
  define results where "results = map (\<lambda>t. executeActionOnTab P (ch_tab_env ch t) t plan runId) tabs"
  define resp where "resp =
     (if length (filter (\<lambda>r. r_status r = ''success'') results) = 0
      then \<lparr>b_status = ''error'', b_error = Some (firstError results), b_detail = None,
            b_durationMs = Some (ch_elapsed ch), b_results = results\<rparr>
      else \<lparr>b_status = ''success'', b_error = None, b_detail = None,
            b_durationMs = Some (ch_elapsed ch), b_results = results\<rparr>)"
  have d: "dispatch_to_tabs P ch plan runId = Inr resp"
    using assms unfolding dispatch_to_tabs_def Let_def resp_def results_def by simp
  have r: "b_results resp = results" by (simp add: resp_def)
  have n: "length (filter (\<lambda>r. r_status r = ''success'') results) = 0
      \<longleftrightarrow> (\<forall>r \<in> set results. r_status r \<noteq> ''success'')"
    by (simp add: filter_empty_conv)
  have s: "b_status resp = ''success'' \<longleftrightarrow> (\<exists>r \<in> set results. r_status r = ''success'')"
    using n by (auto simp: resp_def)
  have f: "b_error resp = Some e"
    if z: "\<forall>r \<in> set results. r_status r \<noteq> ''success''"
      and i: "i < length results" "r_error (results ! i) = Some e" "e \<noteq> []"
        "\<forall>j < i. r_error (results ! j) = Some []"
    for i e
  proof -
    from z n have z0: "length (filter (\<lambda>r. r_status r = ''success'') results) = 0" by blast
    let ?Q = "\<lambda>r. case r_error r of None \<Rightarrow> False | Some e \<Rightarrow> e \<noteq> []"
    have "find ?Q results = Some (results ! i)"
      using i by (intro find_first_index) auto
    then have "firstError results = e"
      using i(2) by (simp add: firstError_def)
    with z0 show ?thesis by (simp add: resp_def)
  qed
  have e: "(\<forall>r \<in> set results. r_status r \<noteq> ''success'')
          \<longrightarrow> b_status resp = ''error''
              \<and> (\<forall>i e. i < length results \<and> r_error (results ! i) = Some e \<and> e \<noteq> []
                      \<and> (\<forall>j < i. r_error (results ! j) = Some [])
                    \<longrightarrow> b_error resp = Some e)"
    using f n by (auto simp: resp_def)
  have l: "length results = length tabs" by (simp add: results_def)
  from d l r s e show ?thesis unfolding results_def [symmetric] by (intro exI [of _ resp]) simp
qed

lemma tabs_all: "resolveTargetTabs test_platform demo_chrome (jget (click_plan (JStr ''all'')) ''target'')
   = Inr [ready_tab, other_tab]"
  by code_simp

lemma tabs_active: "resolveTargetTabs test_platform demo_chrome (jget (click_plan JUndef) ''target'')
   = Inr [ready_tab]"
  by code_simp

lemma click_action: "normalizeAction (jget (click_plan tg) ''action'') = ''CLICK''"
  unfolding click_plan_def by code_simp

lemma tab7_result:
  "executeActionOnTab test_platform (ch_tab_env demo_chrome ready_tab) ready_tab (click_plan tg) ''run-1''
    = \<lparr>r_status = ''error'', r_tabId = Some 7, r_title = ''Example'', r_url = ''https://example.com/'',
       r_detail = JUndef, r_data = JUndef, r_error = Some ''Could not find element to click (#go).''\<rparr>"
  by (simp add: executeActionOnTab_def runTabAction_def click_action demo_chrome_def ready_tab_def
      throwIfCanceled_def falsy_id_def CONTENT_ACTIONS_def Let_def flaky_run [unfolded ready_tab_def])


lemma obliging_run:
  "runContentAction test_platform obliging_env 8 (click_plan tg) ''run-1''
    = \<lparr>cr_outcome = Inr \<lparr>ar_detail = ''Clicked #go.'', ar_data = JUndef\<rparr>, cr_attempts = 1,
       cr_delays = []\<rparr>"
proof -
  have a: "content_attempt test_platform (obliging_env k) 8 (click_plan tg) ''run-1''
      = Inr \<lparr>ar_detail = ''Clicked #go.'', ar_data = JUndef\<rparr>" for k
    unfolding obliging_env_def click_plan_def by code_simp
  have s: "throwIfCanceled (at_seen (obliging_env k)) ''run-1'' = None" for k
    by (simp add: obliging_env_def attempt_with_def throwIfCanceled_def)
  show ?thesis
    unfolding runContentAction_def
    by (simp add: content_loop.simps [of _ obliging_env] a s maxAttempts_def)
qed

lemma tab8_result:
  "executeActionOnTab test_platform (ch_tab_env demo_chrome other_tab) other_tab (click_plan tg) ''run-1''
    = \<lparr>r_status = ''success'', r_tabId = Some 8, r_title = ''Docs'',
       r_url = ''https://example.com/docs'', r_detail = JStr ''Clicked #go.'', r_data = JUndef,
       r_error = None\<rparr>"
  by (simp add: executeActionOnTab_def runTabAction_def click_action demo_chrome_def other_tab_def
      throwIfCanceled_def falsy_id_def CONTENT_ACTIONS_def Let_def obliging_run)

theorem dispatch_results_witness:
  "resolveTargetTabs test_platform demo_chrome (jget (click_plan (JStr ''all'')) ''target'')
     = Inr [ready_tab, other_tab]
   \<and> map_sum id (\<lambda>r. (b_status r, b_error r, map r_status (b_results r), map r_tabId (b_results r)))
        (dispatch_to_tabs test_platform demo_chrome (click_plan (JStr ''all'')) ''run-1'')
       = Inr (''success'', None, [''error'', ''success''], [Some 7, Some 8])
   \<and> resolveTargetTabs test_platform demo_chrome (jget (click_plan JUndef) ''target'') = Inr [ready_tab]
   \<and> map_sum id (\<lambda>r. (b_status r, b_error r, map r_status (b_results r), map r_tabId (b_results r)))
        (dispatch_to_tabs test_platform demo_chrome (click_plan JUndef) ''run-1'')
       = Inr (''error'', Some ''Could not find element to click (#go).'', [''error''], [Some 7])"
proof -
  obtain r2 where r2: "dispatch_to_tabs test_platform demo_chrome (click_plan (JStr ''all'')) ''run-1'' = Inr r2"
    "b_results r2 = map (\<lambda>t. executeActionOnTab test_platform (ch_tab_env demo_chrome t) t
        (click_plan (JStr ''all'')) ''run-1'') [ready_tab, other_tab]"
    "b_status r2 = ''success'' \<longleftrightarrow> (\<exists>r \<in> set (b_results r2). r_status r = ''success'')"
    using dispatch_results [OF tabs_all, of "''run-1''"] by auto
  obtain r1 where r1: "dispatch_to_tabs test_platform demo_chrome (click_plan JUndef) ''run-1'' = Inr r1"
    "b_results r1 = map (\<lambda>t. executeActionOnTab test_platform (ch_tab_env demo_chrome t) t
        (click_plan JUndef) ''run-1'') [ready_tab]"
    "b_status r1 = ''success'' \<longleftrightarrow> (\<exists>r \<in> set (b_results r1). r_status r = ''success'')"
    "(\<forall>r \<in> set (b_results r1). r_status r \<noteq> ''success'')
          \<longrightarrow> b_status r1 = ''error''
              \<and> (\<forall>i e. i < length (b_results r1) \<and> r_error (b_results r1 ! i) = Some e \<and> e \<noteq> []
                      \<and> (\<forall>j < i. r_error (b_results r1 ! j) = Some [])
                    \<longrightarrow> b_error r1 = Some e)"
    using dispatch_results [OF tabs_active, of "''run-1''"] by auto
  have e2: "b_error r2 = None"
    using r2(1) by (auto simp: dispatch_to_tabs_def tabs_all Let_def tab7_result tab8_result split: if_splits)
  have s1: "b_status r1 = ''error''" "b_error r1 = Some ''Could not find element to click (#go).''"
    using r1(4) r1(2) by (simp_all add: tab7_result)
  show ?thesis
    using r2 r1 e2 s1 by (simp add: tabs_all tabs_active tab7_result tab8_result)
qed

section \<open>The cancellation flag\<close>

text \<open>
  Claim C3 says that a flag once set is never reset. The code does reset it: every
  dispatch of a step with a run id and an action writes \<open>canceled: false\<close> before it
  checks the flag, so after a cancellation the next dispatch for the same run finds the
  flag false and runs.
\<close>

theorem dispatch_resets_cancellation:
  assumes "runId \<noteq> []" and "truthy rawPlan" and "typeof_object rawPlan"
    and "normalizeAction (jget rawPlan ''action'') \<noteq> []"
  shows "is_canceled (fst (cancelAgentRun st now runId)) runId
     \<and> \<not> is_canceled (fst (executeAgentPlan P ch (fst (cancelAgentRun st now runId)) rawPlan runId)) runId"
proof -
  have c: "is_canceled (fst (cancelAgentRun st now runId)) runId"
    using assms(1) by (simp add: cancelAgentRun_def setRunState_def is_canceled_def)
  have t: "throwIfCanceled (setRunState s n runId False) runId = None" for s n
    using assms(1) by (simp add: throwIfCanceled_def setRunState_def)
  have "fst (executeAgentPlan P ch s rawPlan runId) = setRunState s (ch_now ch) runId False" for s
    using assms by (simp add: executeAgentPlan_def Let_def t)
  then have "\<not> is_canceled (fst (executeAgentPlan P ch s rawPlan runId)) runId" for s
    using assms(1) by (simp add: setRunState_def is_canceled_def)
  with c show ?thesis by blast
qed

lemma wait_runs:
  "snd (executeAgentPlan test_platform demo_chrome s wait_plan ''run-1'')
     = Inr (single_result demo_chrome (plain_result ''Waited 80ms''))"
proof -
  have tr: "truthy wait_plan" "typeof_object wait_plan"
    by (simp_all add: wait_plan_def)
  have a: "normalizeAction (jget wait_plan ''action'') = ''WAIT''"
    unfolding wait_plan_def by code_simp
  have t: "throwIfCanceled (setRunState s n ''run-1'' False) ''run-1'' = None" for s n
    by (simp add: throwIfCanceled_def setRunState_def)
  have w: "waitWithCancellation (ch_wait_polls demo_chrome) ''run-1'' = None"
    by (simp add: demo_chrome_def throwIfCanceled_def)
  have ms: "clamp (num_or (js_Number test_platform (jget (with_action wait_plan ''WAIT'') ''ms''))
              (Fin 800)) (Fin 80) (Fin 20000) = Fin 80"
    unfolding wait_plan_def by code_simp
  have str: "js_String test_platform (JNum (Fin 80)) = ''80''"
    by code_simp
  show ?thesis
    by (simp only: executeAgentPlan_def Let_def tr a t w ms str simp_thms if_True if_False
        option.case snd_conv list.simps append.simps)
qed

theorem dispatch_resets_cancellation_witness:
  "is_canceled (handle_message test_platform demo_chrome Map.empty (CANCEL_AGENT_RUN ''run-1'')) ''run-1''
   \<and> \<not> is_canceled
        (handle_message test_platform demo_chrome
           (handle_message test_platform demo_chrome Map.empty (CANCEL_AGENT_RUN ''run-1''))
           (EXECUTE_AGENT_PLAN wait_plan ''run-1'')) ''run-1''
   \<and> snd (executeAgentPlan test_platform demo_chrome
          (handle_message test_platform demo_chrome Map.empty (CANCEL_AGENT_RUN ''run-1''))
          wait_plan ''run-1'')
       = Inr (single_result demo_chrome (plain_result ''Waited 80ms''))"
proof -
  have a: "normalizeAction (jget wait_plan ''action'') \<noteq> []"
    unfolding wait_plan_def by code_simp
  have tr: "truthy wait_plan" "typeof_object wait_plan"
    by (simp_all add: wait_plan_def)
  have r: "(''run-1'' :: string) \<noteq> []" by simp
  from dispatch_resets_cancellation [OF r tr a, of Map.empty "ch_now demo_chrome" test_platform demo_chrome]
  show ?thesis
    by (simp add: wait_runs)
qed

section \<open>The registration prompt is planned locally\<close>

subsection \<open>Strings without white space\<close>

lemma dropWhile_none: "\<forall>c \<in> set s. \<not> Q c \<Longrightarrow> dropWhile Q s = s"
  by (cases s) auto

lemma trim_id: "\<forall>c \<in> set s. \<not> is_ws c \<Longrightarrow> trim s = s"
  by (simp add: trim_def dropWhile_none)

lemma sanitizeText_id:
  "\<forall>c \<in> set s. \<not> is_ws c \<Longrightarrow> s \<noteq> [] \<Longrightarrow> length s \<le> n \<Longrightarrow> sanitizeText (JStr s) n = s"
  by (simp add: sanitizeText_def trim_id)

lemma digit_chars: "n < 10 \<Longrightarrow> ''0123456789'' ! n \<in> set ''0123456789''"
  by (rule nth_mem) simp

lemma show_nat_digits: "set (show_nat n) \<subseteq> set ''0123456789''"
proof (induction n rule: show_nat.induct)
  case (1 n)
  show ?case
  proof (cases "n < 10")
    case True
    then show ?thesis using digit_chars [of n] by (subst show_nat.simps) simp
  next
    case False
    have "n mod 10 < 10" by simp
    then have "''0123456789'' ! (n mod 10) \<in> set ''0123456789''" by (rule digit_chars)
    with False "1.IH" show ?thesis by (subst show_nat.simps) simp
  qed
qed

lemma show_nat_nonempty: "show_nat n \<noteq> []"
  by (subst show_nat.simps) simp

lemma last6_facts: "set (last6 s) \<subseteq> set s" "length (last6 s) \<le> 6"
  by (auto simp: last6_def dest: in_set_dropD)

lemma digits_plain: "c \<in> set ''0123456789'' \<Longrightarrow> \<not> is_ws c \<and> c \<noteq> CHR ''@''"
  by (auto simp: is_ws_def)

lemma stamp_plain:
  "c \<in> set (last6 (show_nat n)) \<Longrightarrow> \<not> is_ws c \<and> c \<noteq> CHR ''@''"
  using last6_facts(1) [of "show_nat n"] show_nat_digits [of n] digits_plain [of c] by blast

subsection \<open>The generated password\<close>

lemma random_index:
  fixes r :: rat
  assumes "0 \<le> r" and "r < 1"
  shows "0 \<le> \<lfloor>r * 62\<rfloor> \<and> \<lfloor>r * 62\<rfloor> < (62 :: int)"
proof -
  have "0 \<le> r * 62" using assms by simp
  then have a: "0 \<le> \<lfloor>r * 62\<rfloor>" by simp
  have "r * 62 < 62" using assms by simp
  then have "\<lfloor>r * 62\<rfloor> < (62 :: int)" by (simp add: floor_less_iff)
  with a show ?thesis by simp
qed

lemma password_chars_length: "length password_chars = 62"
  by (simp add: password_chars_def)

lemma password_chars_plain: "c \<in> set password_chars \<Longrightarrow> \<not> is_ws c"
  by (auto simp: password_chars_def is_ws_def)

lemma random_char:
  fixes r :: rat
  assumes "0 \<le> r" and "r < 1"
  shows "\<exists>c. charAt password_chars \<lfloor>r * of_nat (length password_chars)\<rfloor> = [c]
            \<and> c \<in> set password_chars"
proof -
  from random_index [OF assms] have i: "0 \<le> \<lfloor>r * 62\<rfloor>" "\<lfloor>r * 62\<rfloor> < (62 :: int)" by auto
  then have "nat \<lfloor>r * 62\<rfloor> < 62" by linarith
  then have "nat \<lfloor>r * 62\<rfloor> < length password_chars" by (simp only: password_chars_length)
  then have "password_chars ! nat \<lfloor>r * 62\<rfloor> \<in> set password_chars" by (rule nth_mem)
  with i show ?thesis by (simp add: charAt_def password_chars_length)
qed

lemma concat_singletons:
  assumes "\<forall>x \<in> set xs. \<exists>c. f x = [c] \<and> c \<in> A"
  shows "length (concat (map f xs)) = length xs \<and> set (concat (map f xs)) \<subseteq> A"
  using assms by (induction xs) auto

lemma generated_password:
  assumes "\<forall>i. 0 \<le> ce_random R i \<and> ce_random R i < 1"
  shows "length (generateRandomPassword R) = 12
         \<and> set (generateRandomPassword R) \<subseteq> set password_chars"
proof -
  have "\<forall>i \<in> set [0..<12]. \<exists>c. charAt password_chars
           \<lfloor>ce_random R i * of_nat (length password_chars)\<rfloor> = [c] \<and> c \<in> set password_chars"
    using assms random_char by blast
  from concat_singletons [OF this] show ?thesis
    by (simp add: generateRandomPassword_def)
qed

subsection \<open>The registration prompt\<close>

lemma register_no_navigation:
  "rx_test True rx_navigation_intent (toLowerCase register_prompt) = False"
  by code_simp

lemma register_auth: "rx_test True rx_fast_auth (toLowerCase register_prompt) = True"
  by code_simp

lemma register_url:
  "rx_match True rx_explicit_url register_prompt = Some (12, ''https://example.com'', [])"
  by code_simp

lemma register_values:
  "extractPromptValue register_prompt (rx_value_of [''email'', ''e-mail'']) = ''random''"
  "extractPromptValue register_prompt (rx_value_of [''password'', ''pass'']) = ''random''"
  "extractPromptValue register_prompt (rx_value_of [''username'', ''user'']) = []"
  by code_simp+

lemma register_wants_random:
  "rx_test True (rx_key_random [''password'', ''pass'']) register_prompt = True"
  "rx_test True (rx_key_random [''email'']) register_prompt = True"
  by code_simp+

lemma register_details:
  "extractAuthDetails R register_prompt
     = \<lparr>ad_email = ''user'' @ time_stamp R @ ''@example.com'',
        ad_password = generateRandomPassword R,
        ad_username = ''user'' @ time_stamp R\<rparr>"
proof -
  have "takeWhile (\<lambda>c. c \<noteq> CHR ''@'') (''user'' @ time_stamp R @ ''@example.com'') = ''user'' @ time_stamp R"
    using stamp_plain [of _ "ce_now R"] by (simp add: time_stamp_def takeWhile_tail)
  then show ?thesis
    by (simp add: extractAuthDetails_def Let_def register_values register_wants_random str_or_def
        time_stamp_def)
qed


lemma stamp_chars: "c \<in> set (time_stamp R) \<Longrightarrow> \<not> is_ws c \<and> c \<noteq> CHR ''@''"
  using stamp_plain [of c "ce_now R"] by (simp add: time_stamp_def)

lemma stamp_length: "length (time_stamp R) \<le> 6"
  by (simp add: time_stamp_def last6_facts)

lemma email_sane:
  "sanitizeText (JStr (''user'' @ time_stamp R @ ''@example.com'')) 1200
     = ''user'' @ time_stamp R @ ''@example.com''"
proof (rule sanitizeText_id)
  show "\<forall>c \<in> set (''user'' @ time_stamp R @ ''@example.com''). \<not> is_ws c"
    using stamp_chars [of _ R] by (auto simp: is_ws_def)
  show "''user'' @ time_stamp R @ ''@example.com'' \<noteq> []" by simp
  show "length (''user'' @ time_stamp R @ ''@example.com'') \<le> 1200"
    using stamp_length [of R] by simp
qed

lemma username_sane:
  "sanitizeText (JStr (''user'' @ time_stamp R)) 1200 = ''user'' @ time_stamp R"
proof (rule sanitizeText_id)
  show "\<forall>c \<in> set (''user'' @ time_stamp R). \<not> is_ws c"
    using stamp_chars [of _ R] by (auto simp: is_ws_def)
  show "''user'' @ time_stamp R \<noteq> []" by simp
  show "length (''user'' @ time_stamp R) \<le> 1200"
    using stamp_length [of R] by simp
qed

lemma password_sane:
  assumes "\<forall>i. 0 \<le> ce_random R i \<and> ce_random R i < 1"
  shows "sanitizeText (JStr (generateRandomPassword R)) 1200 = generateRandomPassword R"
    and "generateRandomPassword R \<noteq> []" and "generateRandomPassword R \<noteq> ''random''"
proof -
  from generated_password [OF assms]
  have l: "length (generateRandomPassword R) = 12"
    and c: "set (generateRandomPassword R) \<subseteq> set password_chars" by auto
  from l show ne: "generateRandomPassword R \<noteq> []" by auto
  from l show "generateRandomPassword R \<noteq> ''random''" by auto
  show "sanitizeText (JStr (generateRandomPassword R)) 1200 = generateRandomPassword R"
  proof (rule sanitizeText_id)
    show "\<forall>c \<in> set (generateRandomPassword R). \<not> is_ws c"
      using c password_chars_plain by blast
    show "generateRandomPassword R \<noteq> []" by (rule ne)
    show "length (generateRandomPassword R) \<le> 1200" using l by simp
  qed
qed

lemma field_names_sane:
  "sanitizeText (JStr ''email'') 120 = ''email''"
  "sanitizeText (JStr ''username'') 120 = ''username''"
  "sanitizeText (JStr ''password'') 120 = ''password''"
  "sanitizeText (JStr ''confirm password'') 120 = ''confirm password''"
  "sanitizeText (JStr ''email'') 32 = ''email''"
  "sanitizeText (JStr ''text'') 32 = ''text''"
  "sanitizeText (JStr ''password'') 32 = ''password''"
  by code_simp+

lemma field_sane:
  assumes "sanitizeText (JStr v) 1200 = v" and "v \<noteq> []"
    and "sanitizeText (JStr name) 120 = name" and "name \<noteq> []"
    and "sanitizeText (JStr type) 32 = type" and "type \<noteq> []"
  shows "sanitizeFormField (form_field name type v) = Some (sanitized_field name type v)"
  using assms
  by (simp add: sanitizeFormField_def form_field_def sanitized_field_def MAX_FIELD_TEXT_LENGTH_def
      opt_member_def sanitizeSelector_def sanitizeText_def [of JUndef])

lemma action_names:
  "toUpperCase (trim ''NAVIGATE'') = ''NAVIGATE''"
  "toUpperCase (trim ''ANALYZE_PAGE'') = ''ANALYZE_PAGE''"
  "toUpperCase (trim ''FILL_FORM'') = ''FILL_FORM''"
  by code_simp+

lemma example_urls:
  "trim ''https://example.com'' = ''https://example.com''"
  "trim ''https://example.com/'' = ''https://example.com/''"
  "rx_test True rx_http_prefix ''https://example.com'' = True"
  "rx_test True rx_http_prefix ''https://example.com/'' = True"
  by code_simp+

lemma sanitizeUrl_example:
  assumes "pf_url P s = Some parsed" and "protocol parsed = ''https:''"
    and "trim s = s" and "s \<noteq> []" and "rx_test True rx_http_prefix s = True"
  shows "sanitizeUrl P (JStr s) = href parsed"
  using assms by (simp add: sanitizeUrl_def)

lemma register_not_deterministic: "maybeBuildDeterministicPlan P register_prompt dt = None"
  by (simp add: maybeBuildDeterministicPlan_def Let_def register_no_navigation)

text \<open>
  Claim C9. For the prompt \<open>Register on https://example.com with email random and
  password random\<close> the plan is made without the model: no deterministic plan applies,
  the fast plan does, and sanitized it is exactly NAVIGATE to \<open>https://example.com/\<close>,
  ANALYZE_PAGE, FILL_FORM with \<open>submit\<close> true. The e-mail is \<open>user\<close>, the last six
  digits of the clock and \<open>@example.com\<close>; the password is twelve characters drawn from
  the password alphabet; neither is empty or the word \<open>random\<close>. The URL parser is
  assumed to read the two spellings of the address as \<open>https://example.com/\<close>, and
  \<open>Math.random()\<close> to stay within its range.
\<close>

theorem register_prompt_plan:
  assumes "\<forall>s \<in> {''https://example.com'', ''https://example.com/''}.
             \<exists>parsed. pf_url P s = Some parsed \<and> protocol parsed = ''https:''
                       \<and> href parsed = ''https://example.com/''"
    and "\<forall>i. 0 \<le> ce_random R i \<and> ce_random R i < 1"
  shows "local_plan P R register_prompt dt
           = Some (FastPlan,
               [JObj [(''action'', JStr ''NAVIGATE''), (''target'', normalizeTarget P dt dt),
                      (''url'', JStr ''https://example.com/'')],
                JObj [(''action'', JStr ''ANALYZE_PAGE''), (''target'', normalizeTarget P dt dt),
                      (''includeText'', JBool True), (''maxTextChars'', JNum (Fin 2500))],
                JObj [(''action'', JStr ''FILL_FORM''), (''target'', normalizeTarget P dt dt),
                      (''fields'', JArr
                         [sanitized_field ''email'' ''email'' (''user'' @ time_stamp R @ ''@example.com''),
                          sanitized_field ''username'' ''text'' (''user'' @ time_stamp R),
                          sanitized_field ''password'' ''password'' (generateRandomPassword R),
                          sanitized_field ''confirm password'' ''password'' (generateRandomPassword R)]),
                      (''submit'', JBool True)]])
         \<and> ''user'' @ time_stamp R @ ''@example.com'' \<noteq> []
         \<and> ''user'' @ time_stamp R @ ''@example.com'' \<noteq> ''random''
         \<and> generateRandomPassword R \<noteq> []
         \<and> generateRandomPassword R \<noteq> ''random''"
proof -
  from assms(1) obtain p1 p2 where
    p1: "pf_url P ''https://example.com'' = Some p1" "protocol p1 = ''https:''"
      "href p1 = ''https://example.com/''" and
    p2: "pf_url P ''https://example.com/'' = Some p2" "protocol p2 = ''https:''"
      "href p2 = ''https://example.com/''"
    by auto
  have u1: "sanitizeUrl P (JStr ''https://example.com'') = ''https://example.com/''"
    using sanitizeUrl_example [OF p1(1,2) example_urls(1) _ example_urls(3)] p1(3) by simp
  have u2: "sanitizeUrl P (JStr ''https://example.com/'') = ''https://example.com/''"
    using sanitizeUrl_example [OF p2(1,2) example_urls(2) _ example_urls(4)] p2(3) by simp
  let ?email = "''user'' @ time_stamp R @ ''@example.com''"
  let ?user = "''user'' @ time_stamp R"
  let ?pw = "generateRandomPassword R"
  note pw = password_sane [OF assms(2)]
  let ?nav = "JObj [(''action'', JStr ''NAVIGATE''), (''url'', JStr ''https://example.com/''),
                    (''target'', dt)]"
  let ?ana = "JObj [(''action'', JStr ''ANALYZE_PAGE''), (''includeText'', JBool True),
                        (''maxTextChars'', JNum (Fin 2500)), (''target'', dt)]"
  let ?fields = "[form_field ''email'' ''email'' ?email, form_field ''username'' ''text'' ?user,
                  form_field ''password'' ''password'' ?pw,
                  form_field ''confirm password'' ''password'' ?pw]"
  let ?fill = "JObj [(''action'', JStr ''FILL_FORM''), (''fields'', JArr ?fields),
                        (''submit'', JBool True), (''target'', dt)]"
  have fast: "maybeBuildFastPlan P R register_prompt dt = Some (JArr [?nav, ?ana, ?fill])"
    using register_details [of R]
    by (simp add: maybeBuildFastPlan_def Let_def register_auth register_url u1)
  have s1: "sanitizeStep P dt ?nav
      = Some (JObj [(''action'', JStr ''NAVIGATE''), (''target'', normalizeTarget P dt dt),
                      (''url'', JStr ''https://example.com/'')])"
    by (simp add: sanitizeStep_def Let_def action_names ALLOWED_ACTIONS_def TAB_ACTIONS_def
        sanitizeAction_def u2)
  have s2: "sanitizeStep P dt ?ana
      = Some (JObj [(''action'', JStr ''ANALYZE_PAGE''), (''target'', normalizeTarget P dt dt),
                      (''includeText'', JBool True), (''maxTextChars'', JNum (Fin 2500))])"
    by (simp add: sanitizeStep_def Let_def action_names ALLOWED_ACTIONS_def TAB_ACTIONS_def
        sanitizeAction_def clamp_def num_or_def)
  have f: "List.map_filter sanitizeFormField ?fields
      = [sanitized_field ''email'' ''email'' ?email, sanitized_field ''username'' ''text'' ?user,
         sanitized_field ''password'' ''password'' ?pw,
         sanitized_field ''confirm password'' ''password'' ?pw]"
    using field_sane [OF email_sane _ field_names_sane(1) _ field_names_sane(5), of R]
      field_sane [OF username_sane _ field_names_sane(2) _ field_names_sane(6), of R]
      field_sane [OF pw(1,2) field_names_sane(3) _ field_names_sane(7)]
      field_sane [OF pw(1,2) field_names_sane(4) _ field_names_sane(7)]
    by (simp add: List.map_filter_def)
  have s3: "sanitizeStep P dt ?fill
      = Some (JObj [(''action'', JStr ''FILL_FORM''), (''target'', normalizeTarget P dt dt),
                      (''fields'', JArr
                         [sanitized_field ''email'' ''email'' ?email,
                          sanitized_field ''username'' ''text'' ?user,
                          sanitized_field ''password'' ''password'' ?pw,
                          sanitized_field ''confirm password'' ''password'' ?pw]),
                      (''submit'', JBool True)])"
    using f
    by (simp add: sanitizeStep_def Let_def action_names ALLOWED_ACTIONS_def TAB_ACTIONS_def
        sanitizeAction_def opt_member_def sanitizeSelector_def del: List.map_filter_simps)
  have plan: "sanitizePlan P (JArr [?nav, ?ana, ?fill]) dt
      = [the (sanitizeStep P dt ?nav), the (sanitizeStep P dt ?ana), the (sanitizeStep P dt ?fill)]"
    using s1 s2 s3
    by (simp add: sanitizePlan_def MAX_PLAN_STEPS_def List.map_filter_def Let_def)
  have "local_plan P R register_prompt dt
      = Some (FastPlan, sanitizePlan P (JArr [?nav, ?ana, ?fill]) dt)"
    using fast by (simp add: local_plan_def register_not_deterministic)
  then show ?thesis
    using pw(2,3) plan s1 s2 s3 by simp
qed

lemma demo_stamp: "time_stamp demo_chance = ''123456''"
  by (simp add: time_stamp_def demo_chance_def show_nat.simps last6_def)


lemma demo_indices: "map (\<lambda>i. \<lfloor>ce_random demo_chance i * 62\<rfloor>) [0, 1, 2, 3, 4, 5, 6, 7, 8, 9, 10, 11]
   = [0, 5, 10, 15, 20, 25, 31, 36, 41, 46, 51, 56]"
  by (simp add: demo_chance_def floor_eq_iff)
lemma upt12: "[0..<12] = [0, 1, 2, 3, 4, 5, 6, 7, 8, 9, 10, 11]"
  by (simp add: upt_rec)
lemma demo_password: "generateRandomPassword demo_chance = ''AFLRWbhnsx49''"
proof -
  have "map (\<lambda>i. charAt password_chars \<lfloor>ce_random demo_chance i * of_nat (length password_chars)\<rfloor>)
          [0, 1, 2, 3, 4, 5, 6, 7, 8, 9, 10, 11]
        = map (charAt password_chars) [0, 5, 10, 15, 20, 25, 31, 36, 41, 46, 51, 56]"
    using demo_indices by (simp add: password_chars_def)
  also have "\<dots> = [''A'', ''F'', ''L'', ''R'', ''W'', ''b'', ''h'', ''n'', ''s'', ''x'', ''4'', ''9'']"
    by (simp add: charAt_def password_chars_def)
  finally show ?thesis
    by (simp add: generateRandomPassword_def upt12)
qed

lemma demo_random: "\<forall>i. 0 \<le> ce_random demo_chance i \<and> ce_random demo_chance i < 1"
proof
  fix i :: nat
  have "i mod 12 < 12" by simp
  then have "(of_nat (i mod 12) :: rat) < 12" by (simp only: of_nat_less_numeral_iff)
  then show "0 \<le> ce_random demo_chance i \<and> ce_random demo_chance i < 1"
    by (simp add: demo_chance_def)
qed

lemma demo_urls:
  "\<forall>s \<in> {''https://example.com'', ''https://example.com/''}.
      \<exists>parsed. pf_url test_platform s = Some parsed \<and> protocol parsed = ''https:''
                \<and> href parsed = ''https://example.com/''"
  by (simp add: test_platform_def)

theorem register_prompt_plan_witness:
  "pf_url test_platform ''https://example.com''
     = Some \<lparr>protocol = ''https:'', hostname = ''example.com'', href = ''https://example.com/''\<rparr>
   \<and> ce_random demo_chance 5 = 5 / 12
   \<and> local_plan test_platform demo_chance register_prompt JUndef
       = Some (FastPlan,
           [JObj [(''action'', JStr ''NAVIGATE''), (''target'', JObj [(''mode'', JStr ''active'')]),
                  (''url'', JStr ''https://example.com/'')],
            JObj [(''action'', JStr ''ANALYZE_PAGE''), (''target'', JObj [(''mode'', JStr ''active'')]),
                  (''includeText'', JBool True), (''maxTextChars'', JNum (Fin 2500))],
            JObj [(''action'', JStr ''FILL_FORM''), (''target'', JObj [(''mode'', JStr ''active'')]),
                  (''fields'', JArr
                     [sanitized_field ''email'' ''email'' ''user123456@example.com'',
                      sanitized_field ''username'' ''text'' ''user123456'',
                      sanitized_field ''password'' ''password'' ''AFLRWbhnsx49'',
                      sanitized_field ''confirm password'' ''password'' ''AFLRWbhnsx49'']),
                  (''submit'', JBool True)]])"
proof -
  have t: "normalizeTarget test_platform JUndef JUndef = JObj [(''mode'', JStr ''active'')]"
    by (simp add: normalizeTarget_def mode_only_def)
  have u: "pf_url test_platform ''https://example.com''
     = Some \<lparr>protocol = ''https:'', hostname = ''example.com'', href = ''https://example.com/''\<rparr>"
    by (simp add: test_platform_def)
  have r: "ce_random demo_chance 5 = 5 / 12" by (simp add: demo_chance_def)
  from register_prompt_plan [OF demo_urls demo_random, of JUndef] u r
  show ?thesis by (simp add: t demo_stamp demo_password)
qed


section \<open>The step loop of the orchestrator under a stop\<close>

lemma canceled_not_recoverable: "shouldAttemptRecovery step ''Request canceled'' = False"
proof -
  have "\<not> (str_includes (toLowerCase ''Request canceled'') ''element not found''
            \<or> str_includes (toLowerCase ''Request canceled'') ''could not find element''
            \<or> str_includes (toLowerCase ''Request canceled'') ''input not found''
            \<or> str_includes (toLowerCase ''Request canceled'') ''no form fields matched'')"
    by code_simp
  then show ?thesis by (simp add: shouldAttemptRecovery_def Let_def)
qed

lemma emit_fields:
  "ls_tick (emit es s) = ls_tick s" "ls_currentHost (emit es s) = ls_currentHost s"
  "ls_successCount (emit es s) = ls_successCount s" "ls_skippedCount (emit es s) = ls_skippedCount s"
  "ls_failureCount (emit es s) = ls_failureCount s" "ls_events (emit es s) = ls_events s @ es"
  by (simp_all add: emit_def)

text \<open>Whatever \<open>executeStepWithRecovery\<close> throws, the loop counts a failure and breaks.\<close>

lemma step_loop_break:
  assumes "\<not> ae_shouldStop env (ls_tick s)"
    and "action_of step \<noteq> ''REPLY''"
    and "level (classifyStepRisk P step prompt (ls_currentHost s)) \<noteq> High"
    and "executeStepWithRecovery P env step (emit [Status (action_of step), StepLogged (index + 1) step] s)
           = (s3, Inl error)"
  shows "step_loop P env prompt n index (step # rest) s
     = ((emit [ActionFailed (e_message error), Remediation (action_of step) (e_message error)] s3)
          \<lparr>ls_failureCount := ls_failureCount s3 + 1\<rparr>, None)"
  using assms by (simp add: Let_def emit_fields)

lemma aborted_send:
  assumes "\<not> ae_aborted env (ls_tick s)" and "ae_send env (ls_tick s) = AbortedInFlight"
  shows "executeStepWithRecovery P env step s
     = ((emit [Sent step] s)\<lparr>ls_tick := ls_tick s + 1\<rparr>, Inl createAbortError)"
proof -
  have "sendCommandToBackground P env step s
      = ((emit [Sent step] s)\<lparr>ls_tick := ls_tick s + 1\<rparr>, Inl createAbortError)"
    using assms by (simp add: sendCommandToBackground_def Let_def)
  moreover have "\<not> shouldAttemptRecovery step (e_message createAbortError)"
    by (simp add: createAbortError_def canceled_not_recoverable)
  ultimately show ?thesis by (simp add: executeStepWithRecovery_def)
qed

lemma empty_not_recoverable: "shouldAttemptRecovery step [] = False"
proof -
  have "\<not> (str_includes (toLowerCase []) ''element not found''
            \<or> str_includes (toLowerCase []) ''could not find element''
            \<or> str_includes (toLowerCase []) ''input not found''
            \<or> str_includes (toLowerCase []) ''no form fields matched'')"
    by code_simp
  then show ?thesis by (simp add: shouldAttemptRecovery_def Let_def)
qed

lemma stopped_before_recovery:
  assumes "\<not> ae_aborted env (ls_tick s)"
    and "ae_send env (ls_tick s) = Answered (JObj [(''status'', JStr ''error''), (''error'', JStr m)])"
    and "shouldAttemptRecovery step m"
    and "ae_shouldStop env (ls_tick s + 1)"
  shows "executeStepWithRecovery P env step s
     = ((emit [Sent step] s)\<lparr>ls_tick := ls_tick s + 1\<rparr>, Inl createAbortError)"
proof -
  have m: "m \<noteq> []" using assms(3) empty_not_recoverable by auto
  have "sendCommandToBackground P env step s
      = ((emit [Sent step] s)\<lparr>ls_tick := ls_tick s + 1\<rparr>, Inl (plain_error m))"
    using assms(1,2) m by (simp add: sendCommandToBackground_def Let_def)
  then show ?thesis
    using assms(3,4) by (simp add: executeStepWithRecovery_def plain_error_def)
qed

subsection \<open>A stop while a step is running\<close>

text \<open>
  Claim C4. A stop seen while a step is running does not end the run as stopped. Take a
  run whose first step is not a \<open>REPLY\<close> and needs no approval, with no stop asked when the
  step begins. If the stop arrives while the message to the worker is in flight (the
  signal rejects it with the \<open>AbortError\<close>), or if the worker answers with an error that
  calls for a recovery and the stop predicate is true at the check before the recovery
  (\<open>assertNotStopped\<close> throws the \<open>AbortError\<close>), then the \<open>catch\<close> around the step takes the
  \<open>AbortError\<close> for a failure of the action: the run counts one failed step, shows the
  remediation for \<open>Request canceled\<close>, leaves the loop, and ends with the run summary. No
  later step of the plan runs, but \<open>Process stopped.\<close> is never shown.
\<close>

theorem stop_during_step_ends_as_failure:
  assumes "\<not> ae_shouldStop env t"
    and "action_of step \<noteq> ''REPLY''"
    and "level (classifyStepRisk P step prompt host) \<noteq> High"
    and "\<not> ae_aborted env t"
    and "ae_send env t = AbortedInFlight
         \<or> (ae_send env t = Answered (JObj [(''status'', JStr ''error''), (''error'', JStr m)])
            \<and> shouldAttemptRecovery step m \<and> ae_shouldStop env (t + 1))"
  shows "run_plan P env prompt (step # rest) host t
     = (Done,
        \<lparr>ls_tick = t + 1,
         ls_events = [Status (action_of step), StepLogged 1 step, Sent step,
                      ActionFailed ''Request canceled'',
                      Remediation (action_of step) ''Request canceled'',
                      RunSummary 0 0 1, Status ''Agent ready''],
         ls_successCount = 0, ls_skippedCount = 0, ls_failureCount = 1, ls_currentHost = host\<rparr>)"
proof -
  define s0 where "s0 = \<lparr>ls_tick = t, ls_events = [], ls_successCount = 0, ls_skippedCount = 0,
              ls_failureCount = 0, ls_currentHost = host\<rparr>"
  define s1 where "s1 = emit [Status (action_of step), StepLogged (0 + 1) step] s0"
  define s3 where "s3 = (emit [Sent step] s1)\<lparr>ls_tick := ls_tick s1 + 1\<rparr>"
  have tick: "ls_tick s1 = t" by (simp add: s1_def s0_def emit_fields)
  have exec: "executeStepWithRecovery P env step s1 = (s3, Inl createAbortError)"
    using assms(5)
  proof
    assume "ae_send env t = AbortedInFlight"
    then show ?thesis
      unfolding s3_def using assms(4) by (intro aborted_send) (simp_all add: tick)
  next
    assume "ae_send env t = Answered (JObj [(''status'', JStr ''error''), (''error'', JStr m)])
            \<and> shouldAttemptRecovery step m \<and> ae_shouldStop env (t + 1)"
    then show ?thesis
      unfolding s3_def using assms(4)
      by (intro stopped_before_recovery [where m = m]) (simp_all add: tick)
  qed
  have loop: "step_loop P env prompt (length (step # rest)) 0 (step # rest) s0
      = ((emit [ActionFailed (e_message createAbortError),
                Remediation (action_of step) (e_message createAbortError)] s3)
           \<lparr>ls_failureCount := ls_failureCount s3 + 1\<rparr>, None)"
    using assms(1,2,3) exec [unfolded s1_def]
    by (intro step_loop_break) (simp_all add: s0_def)
  have "run_plan P env prompt (step # rest) host t
      = (Done, emit [RunSummary 0 0 1, Status ''Agent ready'']
           ((emit [ActionFailed (e_message createAbortError),
                Remediation (action_of step) (e_message createAbortError)] s3)
           \<lparr>ls_failureCount := ls_failureCount s3 + 1\<rparr>))"
    unfolding run_plan_def Let_def s0_def [symmetric] loop
    by (simp add: emit_fields s3_def s1_def s0_def del: step_loop.simps)
  then show ?thesis
    by (simp add: emit_def s3_def s1_def s0_def createAbortError_def)
qed

lemma go_step_action: "action_of go_step = ''CLICK''"
  by (simp add: go_step_def action_of_def)

lemma go_step_risk:
  "level (classifyStepRisk test_platform go_step ''press the go button'' ''example.com'') = Medium"
  by code_simp

lemma go_step_recoverable:
  "shouldAttemptRecovery go_step ''Could not find element to click (#go).''"
  by code_simp

text \<open>
  A plan of two clicks on the go button of \<open>example.com\<close>. In the first run the stop
  arrives while the first click is in flight; in the second the worker answers that the
  button was not found and the stop predicate is true when the recovery is about to
  start. Both runs end with \<open>Run summary: 0 completed, 0 skipped, 1 failed\<close>; the second
  click is never sent.
\<close>

theorem stop_during_step_ends_as_failure_witness:
  "ae_shouldStop stop_in_flight 1 \<and> ae_aborted stop_in_flight 1
   \<and> run_plan test_platform stop_in_flight ''press the go button'' [go_step, go_step] ''example.com'' 0
     = (Done,
        \<lparr>ls_tick = 1,
         ls_events = [Status ''CLICK'', StepLogged 1 go_step, Sent go_step,
                      ActionFailed ''Request canceled'',
                      Remediation ''CLICK'' ''Request canceled'',
                      RunSummary 0 0 1, Status ''Agent ready''],
         ls_successCount = 0, ls_skippedCount = 0, ls_failureCount = 1,
         ls_currentHost = ''example.com''\<rparr>)
   \<and> ae_shouldStop stop_before_recovery 1
   \<and> run_plan test_platform stop_before_recovery ''press the go button'' [go_step, go_step] ''example.com'' 0
     = (Done,
        \<lparr>ls_tick = 1,
         ls_events = [Status ''CLICK'', StepLogged 1 go_step, Sent go_step,
                      ActionFailed ''Request canceled'',
                      Remediation ''CLICK'' ''Request canceled'',
                      RunSummary 0 0 1, Status ''Agent ready''],
         ls_successCount = 0, ls_skippedCount = 0, ls_failureCount = 1,
         ls_currentHost = ''example.com''\<rparr>)"
proof -
  have a: "run_plan test_platform stop_in_flight ''press the go button'' (go_step # [go_step]) ''example.com'' 0
     = (Done,
        \<lparr>ls_tick = 0 + 1,
         ls_events = [Status (action_of go_step), StepLogged 1 go_step, Sent go_step,
                      ActionFailed ''Request canceled'',
                      Remediation (action_of go_step) ''Request canceled'',
                      RunSummary 0 0 1, Status ''Agent ready''],
         ls_successCount = 0, ls_skippedCount = 0, ls_failureCount = 1,
         ls_currentHost = ''example.com''\<rparr>)"
    by (rule stop_during_step_ends_as_failure)
       (simp_all add: go_step_action go_step_risk stop_in_flight_def)
  have b: "run_plan test_platform stop_before_recovery ''press the go button'' (go_step # [go_step]) ''example.com'' 0
     = (Done,
        \<lparr>ls_tick = 0 + 1,
         ls_events = [Status (action_of go_step), StepLogged 1 go_step, Sent go_step,
                      ActionFailed ''Request canceled'',
                      Remediation (action_of go_step) ''Request canceled'',
                      RunSummary 0 0 1, Status ''Agent ready''],
         ls_successCount = 0, ls_skippedCount = 0, ls_failureCount = 1,
         ls_currentHost = ''example.com''\<rparr>)"
    by (rule stop_during_step_ends_as_failure [where m = "''Could not find element to click (#go).''"])
       (simp_all add: go_step_action go_step_risk go_step_recoverable stop_before_recovery_def)
  show ?thesis
    using a b by (simp add: go_step_action stop_in_flight_def stop_before_recovery_def)
qed

end
